theory Spec2Isabelle
  imports Complex_Main
begin

section \<open>Python values, errors and strings\<close>

text \<open>
  The connector and the controller are Python code on the Odoo framework.  Exceptions are
  values of \<open>py_error\<close>; a function that can raise returns \<open>py_error + 'a\<close>.
  Python's \<open>str\<close> is modelled as \<open>string\<close>; the texts the properties below
  depend on (digits, field separators, hexadecimal digests) are ASCII.
\<close>

datatype py_error =
    ValidationError string
  | AttributeError
  | KeyError
  | TypeError
  | ValueError
  | OverflowError
  | UnboundLocalError
  | XMLSyntaxError
  | RequestException
  | HTTPError

datatype pyval = PStr string | PInt int | PNone

text \<open>\<open>str(n)\<close> for a Python \<open>int\<close>.\<close>

definition digit_char :: "nat \<Rightarrow> char" where
  "digit_char n = char_of (48 + n mod 10)"

fun str_nat :: "nat \<Rightarrow> string" where
  "str_nat n = (if n < 10 then [digit_char n] else str_nat (n div 10) @ [digit_char n])"

declare str_nat.simps [simp del]

definition str_int :: "int \<Rightarrow> string" where
  "str_int i = (if i < 0 then CHR ''-'' # str_nat (nat (- i)) else str_nat (nat i))"

text \<open>\<open>s.upper()\<close> on ASCII text.\<close>

definition upper_char :: "char \<Rightarrow> char" where
  "upper_char c =
     (let n = (of_char c :: nat) in if 97 \<le> n \<and> n \<le> 122 then char_of (n - 32) else c)"

definition upper :: "string \<Rightarrow> string" where
  "upper s = map upper_char s"

text \<open>
  \<open>s.zfill(width)\<close>: zeros on the left up to \<open>width\<close>, after a leading sign.
\<close>

definition zfill :: "nat \<Rightarrow> string \<Rightarrow> string" where
  "zfill width s =
     (case s of
        c # rest \<Rightarrow>
          if c = CHR ''+'' \<or> c = CHR ''-''
          then c # replicate (width - length s) CHR ''0'' @ rest
          else replicate (width - length s) CHR ''0'' @ s
      | [] \<Rightarrow> replicate width CHR ''0'')"

text \<open>\<open>s.split(sep)[0]\<close> for a one-character separator.\<close>

definition split_first :: "char \<Rightarrow> string \<Rightarrow> string" where
  "split_first sep s = takeWhile (\<lambda>c. c \<noteq> sep) s"

text \<open>
  \<open>s.replace(old, new)\<close>: every non-overlapping occurrence of \<open>old\<close>, found from
  the left; with an empty \<open>old\<close>, \<open>new\<close> goes before every character and at the end.
\<close>

function str_replace :: "string \<Rightarrow> string \<Rightarrow> string \<Rightarrow> string" where
  "str_replace old new [] = (if old = [] then new else [])"
| "str_replace old new (c # cs) =
     (if old = [] then new @ c # str_replace old new cs
      else if take (length old) (c # cs) = old
        then new @ str_replace old new (drop (length old) (c # cs))
      else c # str_replace old new cs)"
  by pat_completeness auto
termination
  by (relation "measure (\<lambda>(old, new, s). length s)") auto

text \<open>
  Truth of a character field or text that may be unset: \<open>None\<close> (or \<open>False\<close>) and
  the empty string are falsy.
\<close>

definition truthy :: "string option \<Rightarrow> bool" where
  "truthy v = (case v of None \<Rightarrow> False | Some s \<Rightarrow> s \<noteq> [])"

text \<open>\<open>a or b\<close>.\<close>

definition py_or :: "string option \<Rightarrow> string option \<Rightarrow> string option" where
  "py_or a b = (if truthy a then a else b)"

section \<open>The payment connector\<close>

text \<open>
  The payment transaction (\<open>self.tx\<close>), as far as the connector reads and writes it.
\<close>

record transaction =
  reference :: string
  partner_email :: string
  partner_lang :: "string option"
  garanti_secure3d_hash :: "string option"

text \<open>
  The acquirer (\<open>self.provider\<close>) is an Odoo record defined outside the files at hand.
  Its credentials are configured character fields; the results of its getter methods
  and its two helper methods are taken as they are.
\<close>

record provider =
  garanti_terminal_id :: string
  garanti_prov_password :: string
  garanti_store_key :: string
  garanti_prov_user :: string
  garanti_merchant_id :: string
  garanti_get_return_url :: string
  garanti_get_api_url :: string
  garanti_get_prov_url :: string
  garanti_get_mode :: string
  garanti_get_company_name :: string
  garanti_format_card_number :: "string option \<Rightarrow> pyval"
  garanti_get_currency_code :: "nat \<Rightarrow> transaction \<Rightarrow> string"
  debug_logging :: bool

text \<open>\<open>card_args\<close>: each entry is \<open>kwargs.get(...)\<close>, so it may be \<open>None\<close>.\<close>

record card_args =
  card_number :: "string option"
  card_cvv :: "string option"
  card_name :: "string option"
  card_valid_month :: "string option"
  card_valid_year :: "string option"

record connector =
  provider :: provider
  tx :: transaction
  amount :: int
  currency_id :: nat
  cargs :: "card_args option"
  client_ip :: "string option"

definition conn_reference :: "connector \<Rightarrow> string" where
  "conn_reference c = split_first CHR ''-'' (reference (tx c))"

definition get_partner_email :: "connector \<Rightarrow> string" where
  "get_partner_email c = split_first CHR '','' (partner_email (tx c))"

subsection \<open>Amounts\<close>

text \<open>
  A Python \<open>float\<close> is an IEEE 754 double: a finite double is given by its exact
  rational value, next to the infinities and NaN (the sign of zero is not kept; no
  result below depends on it).  \<open>round_double\<close> rounds a rational to the nearest
  double, ties to the even significand, with gradual underflow and overflow to
  infinity; it gives the value of a decimal literal and of an arithmetic result.
\<close>

datatype pyfloat = Finite rat | PosInf | NegInf | NaN

text \<open>Powers of two with an integer exponent.\<close>

definition pow2 :: "int \<Rightarrow> rat" where
  "pow2 e = (if 0 \<le> e then 2 ^ nat e else 1 / 2 ^ nat (- e))"

text \<open>The number of binary digits of a positive integer.\<close>

function bit_length :: "int \<Rightarrow> int" where
  "bit_length n = (if n \<le> 0 then 0 else 1 + bit_length (n div 2))"
  by pat_completeness auto
termination
  by (relation "measure nat") auto

declare bit_length.simps [simp del]

text \<open>The exponent of the leading bit of a positive rational: \<open>\<lfloor>log\<^sub>2 x\<rfloor>\<close>.\<close>

definition ilog2 :: "rat \<Rightarrow> int" where
  "ilog2 x =
     (let pq = quotient_of x;
          e0 = bit_length (fst pq) - bit_length (snd pq)
      in if pow2 e0 \<le> x then e0 else e0 - 1)"

text \<open>The nearest integer, a tie going to the even one.\<close>

definition round_half_even :: "rat \<Rightarrow> int" where
  "round_half_even q =
     (let f = \<lfloor>q\<rfloor>; d = q - of_int f
      in if d < 1 / 2 then f
         else if 1 / 2 < d then f + 1
         else if even f then f else f + 1)"

definition round_double :: "rat \<Rightarrow> pyfloat" where
  "round_double x =
     (if x = 0 then Finite 0
      else
        (let a = \<bar>x\<bar>;
             e = max (ilog2 a - 52) (- 1074);
             r = of_int (round_half_even (a / pow2 e)) * pow2 e
         in if pow2 1024 \<le> r then (if 0 < x then PosInf else NegInf)
            else Finite (if 0 < x then r else - r)))"

text \<open>\<open>x * y\<close> on floats.\<close>

fun float_mul :: "pyfloat \<Rightarrow> pyfloat \<Rightarrow> pyfloat" where
  "float_mul (Finite a) (Finite b) = round_double (a * b)"
| "float_mul NaN _ = NaN"
| "float_mul _ NaN = NaN"
| "float_mul (Finite a) PosInf = (if a = 0 then NaN else if 0 < a then PosInf else NegInf)"
| "float_mul (Finite a) NegInf = (if a = 0 then NaN else if 0 < a then NegInf else PosInf)"
| "float_mul PosInf (Finite b) = (if b = 0 then NaN else if 0 < b then PosInf else NegInf)"
| "float_mul NegInf (Finite b) = (if b = 0 then NaN else if 0 < b then NegInf else PosInf)"
| "float_mul PosInf PosInf = PosInf"
| "float_mul NegInf NegInf = PosInf"
| "float_mul PosInf NegInf = NegInf"
| "float_mul NegInf PosInf = NegInf"

text \<open>
  \<open>round(x, 0)\<close> on a float is again a float: the nearest integer, ties to even;
  infinities and NaN are returned as they are.  \<open>int(x)\<close> truncates, and raises on
  an infinity (OverflowError) or NaN (ValueError).
\<close>

fun py_round0 :: "pyfloat \<Rightarrow> pyfloat" where
  "py_round0 (Finite q) = Finite (of_int (round_half_even q))"
| "py_round0 x = x"

fun py_int :: "pyfloat \<Rightarrow> py_error + int" where
  "py_int (Finite q) = Inr (if 0 \<le> q then \<lfloor>q\<rfloor> else \<lceil>q\<rceil>)"
| "py_int NaN = Inl ValueError"
| "py_int _ = Inl OverflowError"

text \<open>\<open>_get_amount\<close>: \<open>int(round(amount * 100, 0))\<close>.\<close>

definition get_amount :: "pyfloat \<Rightarrow> py_error + int" where
  "get_amount amt = py_int (py_round0 (float_mul amt (Finite 100)))"

text \<open>
  The rule of the specification: round half away from zero at two decimals, then to an
  integer number of minor units.
\<close>

definition spec_round_half_away :: "rat \<Rightarrow> int" where
  "spec_round_half_away q = (if 0 \<le> q then \<lfloor>q + 1 / 2\<rfloor> else - \<lfloor>- q + 1 / 2\<rfloor>)"

definition spec_to_minor_units :: "rat \<Rightarrow> int" where
  "spec_to_minor_units a =
     spec_round_half_away (of_int (spec_round_half_away (a * 100)) / 100 * 100)"

subsection \<open>SHA-1 digests\<close>

text \<open>
  \<open>hashlib.sha1\<close> (FIPS 180-4).  A 32-bit word is an integer from 0 below \<open>2 ^ 32\<close>, a
  byte an integer below 256.
\<close>

definition add32 :: "int \<Rightarrow> int \<Rightarrow> int" where
  "add32 a b = (a + b) mod 4294967296"

definition rotl32 :: "nat \<Rightarrow> int \<Rightarrow> int" where
  "rotl32 n x = (x * 2 ^ n) mod 4294967296 + x div 2 ^ (32 - n)"

definition not32 :: "int \<Rightarrow> int" where
  "not32 x = 4294967295 - x"

definition sha1_ch :: "int \<Rightarrow> int \<Rightarrow> int \<Rightarrow> int" where
  "sha1_ch b c d = or (and b c) (and (not32 b) d)"

definition sha1_parity :: "int \<Rightarrow> int \<Rightarrow> int \<Rightarrow> int" where
  "sha1_parity b c d = xor (xor b c) d"

definition sha1_maj :: "int \<Rightarrow> int \<Rightarrow> int \<Rightarrow> int" where
  "sha1_maj b c d = or (or (and b c) (and b d)) (and c d)"

type_synonym sha1_state = "int \<times> int \<times> int \<times> int \<times> int"

text \<open>Rounds with one function and one constant, over the words of the schedule.\<close>

fun sha1_rounds ::
  "(int \<Rightarrow> int \<Rightarrow> int \<Rightarrow> int) \<Rightarrow> int \<Rightarrow> sha1_state \<Rightarrow> int list \<Rightarrow> sha1_state" where
  "sha1_rounds f k s [] = s"
| "sha1_rounds f k (a, b, c, d, e) (w # ws) =
     sha1_rounds f k
       (add32 (add32 (add32 (add32 (rotl32 5 a) (f b c d)) e) k) w, a, rotl32 30 b, c, d) ws"

text \<open>
  The message schedule, newest word first: \<open>n\<close> more words, each from the words 3, 8,
  14 and 16 places back.
\<close>

fun sha1_schedule :: "nat \<Rightarrow> int list \<Rightarrow> int list" where
  "sha1_schedule 0 ws = ws"
| "sha1_schedule (Suc n) ws =
     sha1_schedule n (rotl32 1 (xor (xor (xor (ws ! 2) (ws ! 7)) (ws ! 13)) (ws ! 15)) # ws)"

definition sha1_block :: "sha1_state \<Rightarrow> int list \<Rightarrow> sha1_state" where
  "sha1_block h ws =
     (let w = rev (sha1_schedule 64 (rev ws));
          s1 = sha1_rounds sha1_ch 0x5A827999 h (take 20 w);
          s2 = sha1_rounds sha1_parity 0x6ED9EBA1 s1 (take 20 (drop 20 w));
          s3 = sha1_rounds sha1_maj 0x8F1BBCDC s2 (take 20 (drop 40 w));
          s4 = sha1_rounds sha1_parity 0xCA62C1D6 s3 (drop 60 w)
      in case h of (h0, h1, h2, h3, h4) \<Rightarrow>
           (case s4 of (a, b, c, d, e) \<Rightarrow>
              (add32 h0 a, add32 h1 b, add32 h2 c, add32 h3 d, add32 h4 e)))"

text \<open>Padding: the bit 1, zeros, and the length in bits as 8 bytes.\<close>

definition sha1_pad :: "int list \<Rightarrow> int list" where
  "sha1_pad m =
     m @ [128] @ replicate ((119 - length m mod 64) mod 64) 0
     @ map (\<lambda>i. (8 * int (length m)) div 256 ^ i mod 256) [7, 6, 5, 4, 3, 2, 1, 0]"

fun be_words :: "int list \<Rightarrow> int list" where
  "be_words (a # b # c # d # bs) = (((a * 256 + b) * 256 + c) * 256 + d) # be_words bs"
| "be_words bs = []"

fun sha1_blocks :: "nat \<Rightarrow> sha1_state \<Rightarrow> int list \<Rightarrow> sha1_state" where
  "sha1_blocks 0 h ws = h"
| "sha1_blocks (Suc n) h ws = sha1_blocks n (sha1_block h (take 16 ws)) (drop 16 ws)"

definition sha1 :: "int list \<Rightarrow> sha1_state" where
  "sha1 m =
     (let ws = be_words (sha1_pad m)
      in sha1_blocks (length ws div 16)
           (0x67452301, 0xEFCDAB89, 0x98BADCFE, 0x10325476, 0xC3D2E1F0) ws)"

definition hex_digit :: "int \<Rightarrow> char" where
  "hex_digit n = ''0123456789abcdef'' ! nat (n mod 16)"

definition hex_word :: "int \<Rightarrow> string" where
  "hex_word w = map (\<lambda>i. hex_digit (w div 16 ^ i)) [7, 6, 5, 4, 3, 2, 1, 0]"

definition hexdigest :: "sha1_state \<Rightarrow> string" where
  "hexdigest h = (case h of (a, b, c, d, e) \<Rightarrow> concat (map hex_word [a, b, c, d, e]))"

text \<open>\<open>s.encode("utf-8")\<close>, a character being a code point below 256.\<close>

definition encode_utf8 :: "string \<Rightarrow> int list" where
  "encode_utf8 s =
     concat (map (\<lambda>c. let n = of_char c in
                        if n < 128 then [n] else [192 + n div 64, 128 + n mod 64]) s)"

definition sha1_hex :: "string \<Rightarrow> string" where
  "sha1_hex s = hexdigest (sha1 (encode_utf8 s))"

subsection \<open>Security hashes\<close>

definition garanti_compute_security_data :: "connector \<Rightarrow> string" where
  "garanti_compute_security_data c =
     upper (sha1_hex (garanti_prov_password (provider c)
                      @ zfill 9 (garanti_terminal_id (provider c))))"

text \<open>
  The local \<open>hash_strings\<close> of \<open>_garanti_create_secure3d_hash\<close>.  The return URL is
  read twice, as success URL and as error URL.
\<close>

definition secure3d_hash_strings :: "connector \<Rightarrow> string" where
  "secure3d_hash_strings c =
     garanti_terminal_id (provider c)
     @ conn_reference c
     @ str_int (amount c)
     @ garanti_get_return_url (provider c)
     @ garanti_get_return_url (provider c)
     @ ''sales''
     @ garanti_store_key (provider c)
     @ garanti_compute_security_data c"

text \<open>The hash is saved on the transaction and returned.\<close>

definition garanti_create_secure3d_hash :: "connector \<Rightarrow> string \<times> connector" where
  "garanti_create_secure3d_hash c =
     (let h = upper (sha1_hex (secure3d_hash_strings c))
      in (h, c\<lparr>tx := (tx c)\<lparr>garanti_secure3d_hash := Some h\<rparr>\<rparr>))"

text \<open>
  The field list as the specification gives it, each field once: terminal id, order
  reference, amount, return URL, transaction type, store key, security data.
\<close>

definition spec_3d_fields_once :: "connector \<Rightarrow> string" where
  "spec_3d_fields_once c =
     garanti_terminal_id (provider c)
     @ conn_reference c
     @ str_int (amount c)
     @ garanti_get_return_url (provider c)
     @ ''sales''
     @ garanti_store_key (provider c)
     @ garanti_compute_security_data c"

subsection \<open>The initiate parameter set\<close>

definition garanti_get_partner_lang :: "connector \<Rightarrow> string" where
  "garanti_get_partner_lang c =
     (case partner_lang (tx c) of
        None \<Rightarrow> ''en''
      | Some l \<Rightarrow> if l \<noteq> [] \<and> (l = ''tr_TR'' \<or> l = ''tr'') then ''tr'' else ''en'')"

definition opt_val :: "string option \<Rightarrow> pyval" where
  "opt_val v = (case v of None \<Rightarrow> PNone | Some s \<Rightarrow> PStr s)"

text \<open>
  \<open>_garanti_create_payment_vals\<close>.  The dictionary is built entry by entry, in the
  order of the source; \<open>now_ms\<close> is \<open>round(time.time() * 1000)\<close>.  A missing
  \<open>card_args\<close> or a missing year has no \<open>get\<close> or \<open>replace\<close>: AttributeError, raised
  before the hash is computed.
\<close>

definition garanti_create_payment_vals ::
  "int \<Rightarrow> connector \<Rightarrow> (py_error + (string \<times> pyval) list) \<times> connector" where
  "garanti_create_payment_vals now_ms c =
     (case cargs c of
        None \<Rightarrow> (Inl AttributeError, c)
      | Some ca \<Rightarrow>
          (case card_valid_year ca of
             None \<Rightarrow> (Inl AttributeError, c)
           | Some year \<Rightarrow>
               (let p = provider c;
                    hc = garanti_create_secure3d_hash c
                in (Inr
                     [(''refreshtime'', PStr ''0''),
                      (''paymenttype'', PStr ''creditcard''),
                      (''secure3dsecuritylevel'', PStr ''3D''),
                      (''txntype'', PStr ''sales''),
                      (''cardname'', opt_val (card_name ca)),
                      (''cardnumber'', garanti_format_card_number p (card_number ca)),
                      (''cardexpiredatemonth'', opt_val (card_valid_month ca)),
                      (''cardexpiredateyear'', PStr (str_replace ''20'' [] year)),
                      (''cardcvv2'', opt_val (card_cvv ca)),
                      (''companyname'', PStr (garanti_get_company_name p)),
                      (''apiversion'', PStr ''12''),
                      (''mode'', PStr (garanti_get_mode p)),
                      (''terminalprovuserid'', PStr (garanti_prov_user p)),
                      (''terminaluserid'', PStr (garanti_terminal_id p)),
                      (''terminalid'', PStr (garanti_terminal_id p)),
                      (''terminalmerchantid'', PStr (garanti_merchant_id p)),
                      (''orderid'', PStr (conn_reference c)),
                      (''customeremailaddress'', PStr (get_partner_email c)),
                      (''customeripaddress'', opt_val (client_ip c)),
                      (''txnamount'', PStr (str_int (amount c))),
                      (''txncurrencycode'',
                         PStr (garanti_get_currency_code p (currency_id c) (tx c))),
                      (''txninstallmentcount'', PStr []),
                      (''successurl'', PStr (garanti_get_return_url p)),
                      (''errorurl'', PStr (garanti_get_return_url p)),
                      (''lang'', PStr (garanti_get_partner_lang c)),
                      (''txntimestamp'', PInt now_ms),
                      (''txntimeoutperiod'', PInt 60),
                      (''addcampaigninstallment'', PStr ''N''),
                      (''totalinstallmentcount'', PStr ''0''),
                      (''installmentonlyforcommercialcard'', PStr ''N''),
                      (''secure3dhash'', PStr (fst hc))],
                    snd hc))))"

definition vals_get :: "string \<Rightarrow> (py_error + (string \<times> pyval) list) \<Rightarrow> pyval option" where
  "vals_get k r = (case r of Inl e \<Rightarrow> None | Inr vs \<Rightarrow> map_of vs k)"

subsection \<open>Sample data\<close>

definition example_provider :: provider where
  "example_provider =
     \<lparr>garanti_terminal_id = ''30691298'',
      garanti_prov_password = ''123qweASD/'',
      garanti_store_key = ''12345678'',
      garanti_prov_user = ''PROVAUT'',
      garanti_merchant_id = ''7000679'',
      garanti_get_return_url = ''https://shop.example/payment/garanti/return'',
      garanti_get_api_url = ''https://sanalposprovtest.garantibbva.com.tr/servlet/gt3dengine'',
      garanti_get_prov_url = ''https://sanalposprovtest.garantibbva.com.tr/VPServlet'',
      garanti_get_mode = ''TEST'',
      garanti_get_company_name = ''Example'',
      garanti_format_card_number = opt_val,
      garanti_get_currency_code = (\<lambda>cid t. ''949''),
      debug_logging = True\<rparr>"

definition example_tx :: transaction where
  "example_tx =
     \<lparr>reference = ''SO042-1'',
      partner_email = ''payer@example.com,second@example.com'',
      partner_lang = Some ''tr_TR'',
      garanti_secure3d_hash = None\<rparr>"

definition example_card :: "string \<Rightarrow> card_args" where
  "example_card year =
     \<lparr>card_number = Some ''4111111111111111'',
      card_cvv = Some ''123'',
      card_name = Some ''A PAYER'',
      card_valid_month = Some ''07'',
      card_valid_year = Some year\<rparr>"

definition example_connector :: "string \<Rightarrow> connector" where
  "example_connector year =
     \<lparr>provider = example_provider,
      tx = example_tx,
      amount = 1999,
      currency_id = 31,
      cargs = Some (example_card year),
      client_ip = Some ''203.0.113.7''\<rparr>"

subsection \<open>Audit logging of HTTP exchanges\<close>

text \<open>
  The prepared request and the response of the \<open>requests\<close> library, as far as the
  connector reads them.  A request sent with \<open>params\<close> carries them in its URL and has
  no body (\<open>None\<close>, formatted as the text \<open>None\<close>).  The text of a response stands
  for its \<open>content\<close> as well.
\<close>

record http_request =
  req_method :: string
  req_url :: string
  req_body :: "string option"

record http_response =
  request :: http_request
  status_code :: nat
  resp_text :: string

definition is_digit :: "char \<Rightarrow> bool" where
  "is_digit c = (let n = (of_char c :: nat) in 48 \<le> n \<and> n \<le> 57)"

text \<open>
  \<open>re.search(r"\d{16}", data)\<close>: the leftmost run of 16 digits, if there is one;
  \<open>digits16_at s\<close> says that the pattern matches at the start of \<open>s\<close>.
\<close>

definition digits16_at :: "string \<Rightarrow> bool" where
  "digits16_at s = (16 \<le> length s \<and> list_all is_digit (take 16 s))"

fun re_search_digits16 :: "string \<Rightarrow> string option" where
  "re_search_digits16 [] = None"
| "re_search_digits16 (c # cs) =
     (if digits16_at (c # cs) then Some (take 16 (c # cs)) else re_search_digits16 cs)"

text \<open>The inner function \<open>_anonymize_sensitive_data\<close>; \<open>group()[-4:]\<close> are the last four digits.\<close>

definition anonymize_sensitive_data :: "string \<Rightarrow> string" where
  "anonymize_sensitive_data data =
     (case re_search_digits16 data of
        None \<Rightarrow> data
      | Some card_no \<Rightarrow>
          str_replace card_no (''****'' @ drop (length card_no - 4) card_no) data)"

definition str_opt :: "string option \<Rightarrow> string" where
  "str_opt v = (case v of None \<Rightarrow> ''None'' | Some s \<Rightarrow> s)"

definition serialize_request :: "http_request \<Rightarrow> string" where
  "serialize_request req =
     anonymize_sensitive_data
       (''Request: '' @ req_method req @ '' '' @ req_url req @ [CHR 0x0A]
        @ str_opt (req_body req) @ [CHR 0x0A, CHR 0x0A])"

definition serialize_response :: "http_response \<Rightarrow> string" where
  "serialize_response resp =
     anonymize_sensitive_data
       (''Response: '' @ str_nat (status_code resp) @ [CHR 0x0A]
        @ resp_text resp @ [CHR 0x0A, CHR 0x0A])"

text \<open>
  \<open>_process_http_request\<close>.  The audit log is the list of entries handed to
  \<open>provider.log_xml\<close>, each a text and its kind.
\<close>

definition process_http_request ::
  "bool \<Rightarrow> http_response \<Rightarrow> (string \<times> string) list \<Rightarrow> bool \<times> (string \<times> string) list" where
  "process_http_request debug response audit =
     (if \<not> debug then (True, audit)
      else (True, audit @ [(serialize_request (request response), ''garanti_request''),
                         (serialize_response response, ''garanti_response'')]))"

definition example_exchange :: http_response where
  "example_exchange =
     \<lparr>request =
        \<lparr>req_method = ''POST'',
         req_url = ''https://sanalposprovtest.garantibbva.com.tr/servlet/gt3dengine?cardname=5500000000000004&cardnumber=4111111111111111'',
         req_body = None\<rparr>,
      status_code = 200,
      resp_text = ''<html></html>''\<rparr>"

subsection \<open>Sending a request\<close>

text \<open>
  What is outside the connector: the clock, the HTTP client, the
  HTML parser and serializer of BeautifulSoup, the XML parser and serializer of lxml.
  The HTTP client either raises (connection failure, timeout) or returns a response;
  \<open>etree.fromstring\<close> returns \<open>None\<close> here where it raises XMLSyntaxError.
\<close>

datatype payload = Params "(string \<times> pyval) list" | Data string

datatype html = Tag string "(string \<times> string) list" "html list" | Text string

datatype xml = Element (xtag: string) (xtext: "string option") (xchildren: "xml list")

record externals =
  now_ms :: int
  http_client_request :: "string \<Rightarrow> string \<Rightarrow> payload \<Rightarrow> py_error + http_response"
  html_parser :: "string \<Rightarrow> html list"
  html_str :: "html list \<Rightarrow> string"
  etree_fromstring :: "string \<Rightarrow> xml option"
  etree_tostring :: "xml \<Rightarrow> string"

text \<open>
  \<open>_garanti_requests\<close>: send, log, then \<open>raise_for_status()\<close>, which raises HTTPError
  for a status from 400 to 599.
\<close>

definition garanti_requests ::
  "externals \<Rightarrow> connector \<Rightarrow> (string \<times> string) list \<Rightarrow> string \<Rightarrow> string \<Rightarrow> payload
     \<Rightarrow> (py_error + http_response) \<times> (string \<times> string) list" where
  "garanti_requests ext c audit method url pl =
     (case http_client_request ext method url pl of
        Inl e \<Rightarrow> (Inl e, audit)
      | Inr response \<Rightarrow>
          (let audit' = snd (process_http_request (debug_logging (provider c)) response audit)
           in if 400 \<le> status_code response \<and> status_code response < 600
              then (Inl HTTPError, audit')
              else (Inr response, audit')))"

subsection \<open>The initiate phase\<close>

text \<open>
  \<open>soup.find(name, {key: value})\<close>: the first tag, in document order, with that name
  and that attribute value.  The attributes of a tag are a dictionary.
\<close>

fun find_tag :: "string \<Rightarrow> string \<times> string \<Rightarrow> html \<Rightarrow> html option"
  and find_tags :: "string \<Rightarrow> string \<times> string \<Rightarrow> html list \<Rightarrow> html option" where
  "find_tag n a (Text t) = None"
| "find_tag n a (Tag nm attrs cs) =
     (if nm = n \<and> map_of attrs (fst a) = Some (snd a) then Some (Tag nm attrs cs)
      else find_tags n a cs)"
| "find_tags n a [] = None"
| "find_tags n a (h # hs) =
     (case find_tag n a h of Some t \<Rightarrow> Some t | None \<Rightarrow> find_tags n a hs)"

text \<open>\<open>tag[key]\<close>: KeyError when the tag has no such attribute.\<close>

fun tag_getitem :: "html \<Rightarrow> string \<Rightarrow> py_error + string" where
  "tag_getitem (Tag nm attrs cs) k =
     (case map_of attrs k of None \<Rightarrow> Inl KeyError | Some v \<Rightarrow> Inr v)"
| "tag_getitem (Text t) k = Inl TypeError"

text \<open>
  \<open>_garanti_parse_response_html\<close>.  The messages are the source texts of the
  translation function \<open>_\<close>.
\<close>

definition garanti_parse_response_html ::
  "externals \<Rightarrow> http_response \<Rightarrow> py_error + string \<times> string" where
  "garanti_parse_response_html ext response =
     (let soup = html_parser ext (resp_text response)
      in case find_tags ''input'' (''name'', ''mderrormessage'') soup of
           Some error_msg \<Rightarrow>
             (case tag_getitem error_msg ''value'' of
                Inl e \<Rightarrow> Inl e
              | Inr v \<Rightarrow>
                  if v = ''Not Authenticated''
                  then Inl (ValidationError ''Payment failed. POS: Card is not authenticated.'')
                  else Inl (ValidationError (''Payment Error: '' @ v)))
         | None \<Rightarrow>
             (case find_tags ''form'' (''id'', ''webform0'') soup of
                Some form \<Rightarrow> Inr (''form'', html_str ext [form])
              | None \<Rightarrow> Inr (''redirect'', html_str ext soup)))"

text \<open>
  \<open>_garanti_make_payment_request\<close>: the parameter set is built first; the request and
  the parsing of its response are both inside the \<open>try\<close>, whose handler replaces every
  exception by one ValidationError.
\<close>

definition payment_error_try_again :: py_error where
  "payment_error_try_again = ValidationError ''Payment Error: An error occurred. Please try again.''"

definition garanti_make_payment_request ::
  "externals \<Rightarrow> connector \<Rightarrow> (string \<times> string) list
     \<Rightarrow> (py_error + string \<times> string) \<times> connector \<times> (string \<times> string) list" where
  "garanti_make_payment_request ext c audit =
     (case garanti_create_payment_vals (now_ms ext) c of
        (Inl e, c') \<Rightarrow> (Inl e, c', audit)
      | (Inr vals, c') \<Rightarrow>
          (case garanti_requests ext c' audit ''POST'' (garanti_get_api_url (provider c'))
                  (Params vals) of
             (Inl e, audit') \<Rightarrow> (Inl payment_error_try_again, c', audit')
           | (Inr resp, audit') \<Rightarrow>
               (case garanti_parse_response_html ext resp of
                  Inl e \<Rightarrow> (Inl payment_error_try_again, c', audit')
                | Inr r \<Rightarrow> (Inr r, c', audit'))))"

subsection \<open>The provisioning documents\<close>

text \<open>
  The notification data is the dictionary of fields the provider sent back (or the one
  \<open>_garanti_query_transaction\<close> makes up); its values are texts, as the fields of an
  HTTP request are, and \<open>get\<close> gives \<open>None\<close> for a missing key.
\<close>

type_synonym notification_data = "(string \<times> string) list"

definition nd_get :: "notification_data \<Rightarrow> string \<Rightarrow> string option" where
  "nd_get nd k = map_of nd k"

text \<open>
  lxml takes as the text of an element \<open>None\<close> (the element is empty) or a text that
  is XML-compatible: one without NULL byte and without control character other than
  tab, line feed and carriage return.  The assignment of any other text raises
  ValueError.
\<close>

definition xml_char :: "char \<Rightarrow> bool" where
  "xml_char ch = (let n = (of_char ch :: nat) in n = 9 \<or> n = 10 \<or> n = 13 \<or> 32 \<le> n)"

definition xml_compatible :: "string option \<Rightarrow> bool" where
  "xml_compatible v = (case v of None \<Rightarrow> True | Some s \<Rightarrow> list_all xml_char s)"

text \<open>\<open>etree.SubElement(parent, t).text = v\<close>.\<close>

definition text_element :: "string \<Rightarrow> string option \<Rightarrow> py_error + xml" where
  "text_element t v = (if xml_compatible v then Inr (Element t v []) else Inl ValueError)"

text \<open>The children of an element are made one after the other; the first error ends it.\<close>

fun made_in_turn :: "(py_error + 'a) list \<Rightarrow> py_error + 'a list" where
  "made_in_turn [] = Inr []"
| "made_in_turn (r # rs) =
     (case r of
        Inl e \<Rightarrow> Inl e
      | Inr x \<Rightarrow> (case made_in_turn rs of Inl e \<Rightarrow> Inl e | Inr xs \<Rightarrow> Inr (x # xs)))"

definition element :: "string \<Rightarrow> (py_error + xml) list \<Rightarrow> py_error + xml" where
  "element t cs =
     (case made_in_turn cs of Inl e \<Rightarrow> Inl e | Inr xs \<Rightarrow> Inr (Element t None xs))"

definition garanti_compute_callback_hash_data :: "connector \<Rightarrow> notification_data \<Rightarrow> string" where
  "garanti_compute_callback_hash_data c nd =
     upper (sha1_hex
       (str_opt (nd_get nd ''oid'')
        @ str_opt (nd_get nd ''clientid'')
        @ str_opt (nd_get nd ''txnamount'')
        @ garanti_compute_security_data c))"

definition garanti_terminal_node :: "connector \<Rightarrow> notification_data \<Rightarrow> py_error + xml" where
  "garanti_terminal_node c nd =
     element ''Terminal''
       [text_element ''ProvUserID'' (nd_get nd ''terminalprovuserid''),
        text_element ''HashData'' (Some (garanti_compute_callback_hash_data c nd)),
        text_element ''UserID'' (nd_get nd ''terminaluserid''),
        text_element ''ID'' (nd_get nd ''clientid''),
        text_element ''MerchantID'' (nd_get nd ''terminalmerchantid'')]"

definition garanti_customer_node :: "notification_data \<Rightarrow> py_error + xml" where
  "garanti_customer_node nd =
     element ''Customer''
       [text_element ''IPAddress'' (nd_get nd ''customeripaddress''),
        text_element ''EmailAddress'' (nd_get nd ''customeremailaddress'')]"

definition garanti_card_node :: "py_error + xml" where
  "garanti_card_node =
     element ''Card''
       [text_element ''Number'' (Some []),
        text_element ''ExpireDate'' (Some []),
        text_element ''CVV2'' (Some [])]"

definition garanti_address_list_node :: "py_error + xml" where
  "garanti_address_list_node =
     element ''AddressList''
       [element ''Address''
          [text_element ''Type'' (Some ''B''),
           text_element ''Name'' (Some []),
           text_element ''LastName'' (Some []),
           text_element ''Company'' (Some []),
           text_element ''Text'' (Some []),
           text_element ''District'' (Some []),
           text_element ''City'' (Some []),
           text_element ''PostalCode'' (Some []),
           text_element ''Country'' (Some []),
           text_element ''PhoneNumber'' (Some [])]]"

definition garanti_order_node :: "notification_data \<Rightarrow> py_error + xml" where
  "garanti_order_node nd =
     element ''Order''
       [text_element ''OrderID'' (nd_get nd ''oid''),
        text_element ''GroupID'' (Some []),
        garanti_address_list_node]"

definition garanti_transaction_node :: "notification_data \<Rightarrow> py_error + xml" where
  "garanti_transaction_node nd =
     element ''Transaction''
       [text_element ''Type'' (nd_get nd ''txntype''),
        text_element ''InstallmentCnt'' (nd_get nd ''txninstallmentcount''),
        text_element ''Amount'' (nd_get nd ''txnamount''),
        text_element ''CurrencyCode'' (nd_get nd ''txncurrencycode''),
        text_element ''CardholderPresentCode'' (Some ''13''),
        text_element ''MotoInd'' (Some ''N''),
        element ''Secure3D''
          [text_element ''AuthenticationCode'' (nd_get nd ''cavv''),
           text_element ''SecurityLevel'' (nd_get nd ''eci''),
           text_element ''TxnID'' (nd_get nd ''xid''),
           text_element ''Md'' (nd_get nd ''md'')]]"

text \<open>
  \<open>_garanti_create_callback_xml\<close> and \<open>_garanti_create_query_transaction_vals\<close> build
  the same document.
\<close>

definition garanti_create_callback_xml ::
  "externals \<Rightarrow> connector \<Rightarrow> notification_data \<Rightarrow> py_error + string" where
  "garanti_create_callback_xml ext c nd =
     (case element ''GVPSRequest''
             [text_element ''Mode'' (Some (garanti_get_mode (provider c))),
              text_element ''Version'' (Some ''16''),
              text_element ''ChannelCode'' (Some []),
              garanti_terminal_node c nd,
              garanti_customer_node nd,
              garanti_card_node,
              garanti_order_node nd,
              garanti_transaction_node nd] of
        Inl e \<Rightarrow> Inl e
      | Inr gvps_request \<Rightarrow> Inr (etree_tostring ext gvps_request))"

definition garanti_create_query_transaction_vals ::
  "externals \<Rightarrow> connector \<Rightarrow> notification_data \<Rightarrow> py_error + string" where
  "garanti_create_query_transaction_vals ext c nd = garanti_create_callback_xml ext c nd"

text \<open>The fields of the notification data that the document reads.\<close>

definition document_fields :: "string list" where
  "document_fields =
     [''terminalprovuserid'', ''terminaluserid'', ''clientid'', ''terminalmerchantid'',
      ''customeripaddress'', ''customeremailaddress'', ''oid'', ''txntype'',
      ''txninstallmentcount'', ''txnamount'', ''txncurrencycode'', ''cavv'', ''eci'', ''xid'',
      ''md'']"

subsection \<open>Reading a provisioning response\<close>

text \<open>
  \<open>root.find(".//A/B/C")\<close>: the descendants of the root named \<open>A\<close>, in document
  order, then their children named \<open>B\<close>, then the children of those named \<open>C\<close>;
  the first element found, or \<open>None\<close>.
\<close>

fun descendants :: "xml \<Rightarrow> xml list" where
  "descendants (Element t v cs) = concat (map (\<lambda>c. c # descendants c) cs)"

definition children_named :: "string \<Rightarrow> xml \<Rightarrow> xml list" where
  "children_named t e = filter (\<lambda>c. xtag c = t) (xchildren e)"

definition xml_find :: "string \<Rightarrow> string list \<Rightarrow> xml \<Rightarrow> xml option" where
  "xml_find t path rt =
     (case foldl (\<lambda>nodes p. concat (map (children_named p) nodes))
             (filter (\<lambda>e. xtag e = t) (descendants rt)) path of
        [] \<Rightarrow> None
      | e # es \<Rightarrow> Some e)"




text \<open>
  \<open>_garanti_query_transaction\<close>: only the request is inside the \<open>try\<close>; the building
  of the document comes before it and the parsing of the response after it.  It
  returns the text of the error message, or True.
\<close>

datatype query_result = ErrorText string | PyTrue

definition query_notification_data :: "connector \<Rightarrow> notification_data" where
  "query_notification_data c =
     [(''oid'', conn_reference c),
      (''clientid'', garanti_terminal_id (provider c)),
      (''txnamount'', str_int (amount c)),
      (''txncurrencycode'',
         garanti_get_currency_code (provider c) (currency_id c) (tx c)),
      (''terminalprovuserid'', garanti_prov_user (provider c)),
      (''terminaluserid'', garanti_terminal_id (provider c)),
      (''terminalmerchantid'', garanti_merchant_id (provider c)),
      (''txntype'', ''orderhistoryinq''),
      (''txninstallmentcount'', []),
      (''customeripaddress'', ''127.0.0.1''),
      (''customeremailaddress'', get_partner_email c)]"

definition query_response_outcome :: "xml option \<Rightarrow> py_error + query_result" where
  "query_response_outcome parsed =
     (case parsed of
        None \<Rightarrow> Inl XMLSyntaxError
      | Some rt \<Rightarrow>
          (case xml_find ''ReasonCode'' [] rt of
             None \<Rightarrow> Inl AttributeError
           | Some reason_code \<Rightarrow>
               if truthy (xtext reason_code)
               then (case xml_find ''ErrorMsg'' [] rt of
                       None \<Rightarrow> Inl AttributeError
                     | Some error_msg \<Rightarrow>
                         (case xtext error_msg of
                            None \<Rightarrow> Inr PyTrue
                          | Some m \<Rightarrow> if m \<noteq> [] then Inr (ErrorText m) else Inr PyTrue))
               else Inr PyTrue))"

definition garanti_query_transaction ::
  "externals \<Rightarrow> connector \<Rightarrow> (string \<times> string) list
     \<Rightarrow> (py_error + query_result) \<times> (string \<times> string) list" where
  "garanti_query_transaction ext c audit =
     (case garanti_create_query_transaction_vals ext c (query_notification_data c) of
        Inl e \<Rightarrow> (Inl e, audit)
      | Inr xml_data \<Rightarrow>
          (case garanti_requests ext c audit ''POST'' (garanti_get_prov_url (provider c))
                  (Data xml_data) of
             (Inl e, audit') \<Rightarrow> (Inl payment_error_try_again, audit')
           | (Inr resp, audit') \<Rightarrow>
               (query_response_outcome (etree_fromstring ext (resp_text resp)), audit')))"

subsection \<open>Sample exchanges\<close>

text \<open>
  A provider that answers every request with status 200 and a given text; parsers that
  know the sample pages and documents below and reject any other XML text; and a plain
  serializer.
\<close>

definition example_client :: "string \<Rightarrow> string \<Rightarrow> string \<Rightarrow> payload \<Rightarrow> py_error + http_response" where
  "example_client answer method url pl =
     Inr \<lparr>request =
            \<lparr>req_method = method, req_url = url,
             req_body = (case pl of Data d \<Rightarrow> Some d | Params ps \<Rightarrow> None)\<rparr>,
          status_code = 200,
          resp_text = answer\<rparr>"

definition example_error_page :: string where
  "example_error_page =
     ''<input type=hidden name=mderrormessage value='' @ [CHR 0x22] @ ''Not Authenticated''
     @ [CHR 0x22] @ ''>''"

definition example_html_parser :: "string \<Rightarrow> html list" where
  "example_html_parser s =
     (if s = example_error_page
      then [Tag ''input''
              [(''type'', ''hidden''), (''name'', ''mderrormessage''),
               (''value'', ''Not Authenticated'')] []]
      else [Text s])"

fun example_xml_str :: "xml \<Rightarrow> string" where
  "example_xml_str (Element t v cs) =
     ''<'' @ t @ ''>'' @ (case v of None \<Rightarrow> [] | Some s \<Rightarrow> s)
     @ concat (map example_xml_str cs) @ ''</'' @ t @ ''>''"

definition leaf :: "string \<Rightarrow> string option \<Rightarrow> xml" where
  "leaf t v = Element t v []"

definition response_doc :: "string \<Rightarrow> string \<Rightarrow> xml list \<Rightarrow> xml" where
  "response_doc reason_code message rest =
     Element ''GVPSResponse'' None
       [Element ''Order'' None [leaf ''OrderID'' (Some ''SO042'')],
        Element ''Transaction'' None
          [Element ''Response'' None
             ([leaf ''Source'' (Some ''HOST''),
               leaf ''ReasonCode'' (Some reason_code),
               leaf ''Message'' (Some message)] @ rest)]]"

definition example_approved_doc :: xml where
  "example_approved_doc = response_doc ''00'' ''Approved'' [leaf ''ErrorMsg'' None]"

definition example_declined_doc :: xml where
  "example_declined_doc = response_doc ''05'' ''Declined'' [leaf ''ErrorMsg'' (Some ''Approved'')]"

definition example_bare_declined_doc :: xml where
  "example_bare_declined_doc = response_doc ''05'' ''Declined'' []"

definition example_fromstring :: "string \<Rightarrow> xml option" where
  "example_fromstring s =
     (if s = example_xml_str example_approved_doc then Some example_approved_doc
      else if s = example_xml_str example_declined_doc then Some example_declined_doc
      else if s = example_xml_str example_bare_declined_doc then Some example_bare_declined_doc
      else None)"

definition example_externals :: "string \<Rightarrow> externals" where
  "example_externals answer =
     \<lparr>now_ms = 1700000000000,
      http_client_request = example_client answer,
      html_parser = example_html_parser,
      html_str = (\<lambda>hs. ''<html>''),
      etree_fromstring = example_fromstring,
      etree_tostring = example_xml_str\<rparr>"



section \<open>The initiate endpoint\<close>

text \<open>
  The controller \<open>garanti_s2s_create_json_3ds\<close> works on Odoo records.  The model
  keeps what it reads and writes: the sale order, the payment transactions created,
  the payment requests handed to the acquirer and the transactions saved in the
  session.  Of the JSON arguments, \<open>order_id\<close>, \<open>acquirer_id\<close> and \<open>amount_total\<close> are
  given by what \<open>int(...)\<close> and \<open>float(...)\<close> make of them: a number, or the
  exception raised.
\<close>

record sale_order =
  so_id :: int
  so_name :: string
  so_partner_id :: int
  garanti_payment_amount :: pyfloat
  garanti_payment_currency_id :: nat

record payment_transaction =
  ptx_amount :: pyfloat
  ptx_acquirer_id :: int
  ptx_acquirer_reference :: string
  ptx_partner_id :: int
  ptx_sale_order_id :: int
  ptx_currency_id :: nat
  ptx_state :: string
  ptx_state_message :: string

record kwargs =
  kw_order_id :: "py_error + int"
  kw_acquirer_id :: "py_error + int"
  kw_cc_number :: "string option"
  kw_cc_cvc :: "string option"
  kw_cc_holder_name :: "string option"
  kw_cc_expiry_month :: "string option"
  kw_cc_expiry_year :: "string option"
  kw_amount_total :: "py_error + pyfloat"

text \<open>
  What the controller calls and does not define: the lookup of the order
  (\<open>None\<close> for an empty record set), the acquirer's validation of the card
  arguments (a message, falsy when they are valid), the decimal precision
  \<open>account\<close>, Odoo's \<open>float_compare\<close>, the client address, and the acquirer's
  \<open>_garanti_make_payment_request\<close>, which talks to the provider.
\<close>

record 'r shop =
  browse_sale_order :: "int \<Rightarrow> sale_order option"
  garanti_validate_card_args :: "int \<Rightarrow> card_args \<Rightarrow> string option"
  precision_get_account :: nat
  float_compare :: "pyfloat \<Rightarrow> pyfloat \<Rightarrow> nat \<Rightarrow> int"
  remote_addr :: "string option"
  acq_make_payment_request ::
    "int \<Rightarrow> payment_transaction \<Rightarrow> pyfloat \<Rightarrow> card_args \<Rightarrow> string option \<Rightarrow> py_error + 'r"

record checkout_state =
  transactions :: "payment_transaction list"
  provider_requests :: nat
  session_transactions :: "nat list"

definition kwargs_card_args :: "kwargs \<Rightarrow> card_args" where
  "kwargs_card_args kw =
     \<lparr>card_number = kw_cc_number kw,
      card_cvv = kw_cc_cvc kw,
      card_name = kw_cc_holder_name kw,
      card_valid_month = kw_cc_expiry_month kw,
      card_valid_year = kw_cc_expiry_year kw\<rparr>"

text \<open>The values of the transaction that is created (its date left out).\<close>

definition new_transaction :: "sale_order \<Rightarrow> int \<Rightarrow> payment_transaction" where
  "new_transaction order_sudo acq_id =
     \<lparr>ptx_amount = garanti_payment_amount order_sudo,
      ptx_acquirer_id = acq_id,
      ptx_acquirer_reference = so_name order_sudo,
      ptx_partner_id = so_partner_id order_sudo,
      ptx_sale_order_id = so_id order_sudo,
      ptx_currency_id = garanti_payment_currency_id order_sudo,
      ptx_state = ''draft'',
      ptx_state_message = []\<rparr>"

text \<open>
  \<open>tx._set_transaction_error(msg)\<close> on the transaction with the given position among
  the transactions.
\<close>

definition set_transaction_error :: "nat \<Rightarrow> string \<Rightarrow> checkout_state \<Rightarrow> checkout_state" where
  "set_transaction_error i msg st =
     st\<lparr>transactions :=
          (transactions st)
            [i := (transactions st ! i)\<lparr>ptx_state := ''error'', ptx_state_message := msg\<rparr>]\<rparr>"

text \<open>
  The handler.  The payment request is counted when it is handed to the acquirer; an
  exception it raises is caught, and \<open>response_content\<close> is then unbound at the
  \<open>return\<close>.
\<close>

definition garanti_s2s_create_json_3ds ::
  "'r shop \<Rightarrow> kwargs \<Rightarrow> checkout_state \<Rightarrow> (py_error + 'r) \<times> checkout_state" where
  "garanti_s2s_create_json_3ds shop kw st =
     (case kw_order_id kw of
        Inl e \<Rightarrow> (Inl e, st)
      | Inr order_id \<Rightarrow>
     (case browse_sale_order shop order_id of
        None \<Rightarrow> (Inl (ValidationError ''Sale order not found''), st)
      | Some order_sudo \<Rightarrow>
     (case kw_acquirer_id kw of
        Inl e \<Rightarrow> (Inl e, st)
      | Inr acq_id \<Rightarrow>
     (let ca = kwargs_card_args kw;
          card_error = garanti_validate_card_args shop acq_id ca
      in if truthy card_error then (Inl (ValidationError (str_opt card_error)), st)
         else
     (case kw_amount_total kw of
        Inl e \<Rightarrow>
          (if e = ValueError \<or> e = TypeError
           then (Inl (ValidationError ''Invalid amount''), st)
           else (Inl e, st))
      | Inr amt \<Rightarrow>
          if float_compare shop amt (garanti_payment_amount order_sudo)
               (precision_get_account shop) \<noteq> 0
          then (Inl (ValidationError ''Invalid amount''), st)
          else
            (let tx_sudo = new_transaction order_sudo acq_id;
                 st1 = st\<lparr>transactions := transactions st @ [tx_sudo]\<rparr>;
                 st2 = st1\<lparr>provider_requests := Suc (provider_requests st1)\<rparr>;
                 tx_index = length (transactions st)
             in case acq_make_payment_request shop acq_id tx_sudo amt ca (remote_addr shop) of
                  Inl e \<Rightarrow>
                    (let st3 = set_transaction_error tx_index ''Payment Error. Please contact us.'' st2
                     in (Inl UnboundLocalError,
                         st3\<lparr>session_transactions := session_transactions st3 @ [tx_index]\<rparr>))
                | Inr response_content \<Rightarrow>
                    (Inr response_content,
                     st2\<lparr>session_transactions := session_transactions st2 @ [tx_index]\<rparr>)))))))"

subsection \<open>A sample shop\<close>

definition example_order :: sale_order where
  "example_order =
     \<lparr>so_id = 42, so_name = ''SO042'', so_partner_id = 7,
      garanti_payment_amount = Finite (41 / 2),
      garanti_payment_currency_id = 31\<rparr>"

text \<open>A comparison of two amounts rounded to the given number of decimals.\<close>

definition example_float_compare :: "pyfloat \<Rightarrow> pyfloat \<Rightarrow> nat \<Rightarrow> int" where
  "example_float_compare a b digits =
     (case (a, b) of
        (Finite x, Finite y) \<Rightarrow>
          (let d = round_half_even (x * 10 ^ digits) - round_half_even (y * 10 ^ digits)
           in if d = 0 then 0 else if d < 0 then - 1 else 1)
      | _ \<Rightarrow> 1)"

definition example_validate_card_args :: "int \<Rightarrow> card_args \<Rightarrow> string option" where
  "example_validate_card_args acq_id ca =
     (case card_number ca of
        None \<Rightarrow> Some ''Card number is not valid.''
      | Some n \<Rightarrow> if length n = 16 \<and> list_all is_digit n then None
                  else Some ''Card number is not valid.'')"

definition example_shop :: "(string \<times> string) shop" where
  "example_shop =
     \<lparr>browse_sale_order = (\<lambda>i. if i = 42 then Some example_order else None),
      garanti_validate_card_args = example_validate_card_args,
      precision_get_account = 2,
      float_compare = example_float_compare,
      remote_addr = Some ''203.0.113.7'',
      acq_make_payment_request = (\<lambda>acq_id t amt ca ip. Inl payment_error_try_again)\<rparr>"

definition example_kwargs :: "string \<Rightarrow> pyfloat \<Rightarrow> kwargs" where
  "example_kwargs number amt =
     \<lparr>kw_order_id = Inr 42,
      kw_acquirer_id = Inr 5,
      kw_cc_number = Some number,
      kw_cc_cvc = Some ''123'',
      kw_cc_holder_name = Some ''A PAYER'',
      kw_cc_expiry_month = Some ''07'',
      kw_cc_expiry_year = Some ''2030'',
      kw_amount_total = Inr amt\<rparr>"

definition empty_checkout :: checkout_state where
  "empty_checkout = \<lparr>transactions = [], provider_requests = 0, session_transactions = []\<rparr>"

section \<open>Delivery records\<close>

text \<open>
  The fields of a \<open>stock.picking\<close> record that \<open>button_mail_send\<close> and \<open>write\<close>
  read or change, and the queue of delayed jobs (\<open>with_delay()\<close>) posted for it.  An
  unset character field is \<open>None\<close>.
\<close>

datatype job = MessagePostWithTemplate nat | SmsNotificationSend

record stock_picking =
  sp_partner_email :: "string option"
  sp_sale_partner_email :: "string option"
  mail_sent :: bool
  delivery_state :: "string option"
  carrier_delivery_type :: "string option"
  carrier_send_sms_customer :: bool
  carrier_sms_service_id :: "nat option"
  job_queue :: "job list"

text \<open>The values \<open>button_mail_send\<close> and the delivery state updates pass to \<open>write\<close>.\<close>

record picking_vals =
  vals_delivery_state :: "string option option"
  vals_mail_sent :: "bool option"

definition tracking_status_notification :: "stock_picking \<Rightarrow> stock_picking" where
  "tracking_status_notification sp =
     (if carrier_delivery_type sp \<noteq> None
         \<and> carrier_delivery_type sp \<noteq> Some ''base_on_rule''
         \<and> carrier_delivery_type sp \<noteq> Some ''fixed''
         \<and> carrier_send_sms_customer sp
         \<and> carrier_sms_service_id sp \<noteq> None
      then sp\<lparr>job_queue := job_queue sp @ [SmsNotificationSend]\<rparr>
      else sp)"

text \<open>The inherited \<open>write\<close> stores the given fields.\<close>

definition super_write :: "picking_vals \<Rightarrow> stock_picking \<Rightarrow> stock_picking" where
  "super_write vals sp =
     (let sp1 = (case vals_delivery_state vals of
                   None \<Rightarrow> sp | Some d \<Rightarrow> sp\<lparr>delivery_state := d\<rparr>)
      in case vals_mail_sent vals of
           None \<Rightarrow> sp1 | Some m \<Rightarrow> sp1\<lparr>mail_sent := m\<rparr>)"

definition picking_write :: "picking_vals \<Rightarrow> stock_picking \<Rightarrow> stock_picking" where
  "picking_write vals sp =
     (case vals_delivery_state vals of
        None \<Rightarrow> super_write vals sp
      | Some d \<Rightarrow>
          if d = Some ''in_transit'' \<and> d \<noteq> delivery_state sp
          then super_write vals (tracking_status_notification sp)
          else super_write vals sp)"

text \<open>
  \<open>button_mail_send\<close>; \<open>template_id\<close> is the id of the mail template that the
  module's data declares (\<open>self.env.ref(...)\<close>).
\<close>

definition button_mail_send :: "nat \<Rightarrow> stock_picking \<Rightarrow> bool \<times> stock_picking" where
  "button_mail_send template_id sp =
     (let email = py_or (sp_partner_email sp) (sp_sale_partner_email sp)
      in if truthy email \<and> \<not> mail_sent sp
         then (True,
               picking_write \<lparr>vals_delivery_state = None, vals_mail_sent = Some True\<rparr>
                 (sp\<lparr>job_queue := job_queue sp @ [MessagePostWithTemplate template_id]\<rparr>))
         else (True, sp))"

text \<open>The record after \<open>n\<close> invocations.\<close>

fun button_mail_send_times :: "nat \<Rightarrow> nat \<Rightarrow> stock_picking \<Rightarrow> stock_picking" where
  "button_mail_send_times 0 template_id sp = sp"
| "button_mail_send_times (Suc n) template_id sp =
     button_mail_send_times n template_id (snd (button_mail_send template_id sp))"

definition example_picking :: stock_picking where
  "example_picking =
     \<lparr>sp_partner_email = None,
      sp_sale_partner_email = Some ''buyer@example.com'',
      mail_sent = False,
      delivery_state = Some ''shipping_recorded_in_carrier'',
      carrier_delivery_type = Some ''yurtici'',
      carrier_send_sms_customer = True,
      carrier_sms_service_id = Some 1,
      job_queue = []\<rparr>"

section \<open>Properties\<close>

subsection \<open>SHA-1 test vectors\<close>

lemma sha1_hex_abc: "sha1_hex ''abc'' = ''a9993e364706816aba3e25717850c26c9cd0d89d''"
  by code_simp

lemma sha1_hex_empty: "sha1_hex [] = ''da39a3ee5e6b4b0d3255bfef95601890afd80709''"
  by code_simp

lemma sha1_hex_two_blocks:
  "sha1_hex ''abcdbcdecdefdefgefghfghighijhijkijkljklmklmnlmnomnopnopq''
     = ''84983e441c3bd26ebaae4aa1f95129e5e54670f1''"
  by code_simp

subsection \<open>The 3-D Secure hash\<close>

lemma example_security_data:
  "garanti_compute_security_data (example_connector year)
     = ''1639636D00AB5EF0B3CE073BB222BFAAC2C2C38D''"
  by code_simp

lemma example_hash_strings:
  "secure3d_hash_strings (example_connector ''2030'')
     = ''30691298SO0421999https://shop.example/payment/garanti/returnhttps://shop.example/payment/garanti/returnsales123456781639636D00AB5EF0B3CE073BB222BFAAC2C2C38D''"
  by code_simp

lemma example_fields_once:
  "spec_3d_fields_once (example_connector ''2030'')
     = ''30691298SO0421999https://shop.example/payment/garanti/returnsales123456781639636D00AB5EF0B3CE073BB222BFAAC2C2C38D''"
  by code_simp

lemma example_hash:
  "upper (sha1_hex ''30691298SO0421999https://shop.example/payment/garanti/returnhttps://shop.example/payment/garanti/returnsales123456781639636D00AB5EF0B3CE073BB222BFAAC2C2C38D'')
     = ''67498E90B22DCEB3E6E2C5880769E159CEF1253E''"
  by code_simp

lemma example_hash_once:
  "upper (sha1_hex ''30691298SO0421999https://shop.example/payment/garanti/returnsales123456781639636D00AB5EF0B3CE073BB222BFAAC2C2C38D'')
     = ''3742F56F9B68883AEDD3243726ACFA71DDF130C6''"
  by code_simp

text \<open>
  C1, as stated: the 3-D Secure hash is the uppercase hexadecimal SHA-1 digest of the
  concatenation of terminal id, order reference, amount, return URL, transaction type,
  store key and security data, each exactly once.  For the sample connector the code
  hashes the return URL twice, and the hash is not the digest of the fields taken
  once.
\<close>

theorem secure3d_hash_fields_once_counterexample:
  "fst (garanti_create_secure3d_hash (example_connector ''2030''))
     = ''67498E90B22DCEB3E6E2C5880769E159CEF1253E''
   \<and> upper (sha1_hex (spec_3d_fields_once (example_connector ''2030'')))
     = ''3742F56F9B68883AEDD3243726ACFA71DDF130C6''
   \<and> fst (garanti_create_secure3d_hash (example_connector ''2030''))
     \<noteq> upper (sha1_hex (spec_3d_fields_once (example_connector ''2030'')))"
proof -
  have a: "fst (garanti_create_secure3d_hash (example_connector ''2030''))
     = ''67498E90B22DCEB3E6E2C5880769E159CEF1253E''"
    by (simp only: garanti_create_secure3d_hash_def Let_def fst_conv example_hash_strings
        example_hash)
  have b: "upper (sha1_hex (spec_3d_fields_once (example_connector ''2030'')))
     = ''3742F56F9B68883AEDD3243726ACFA71DDF130C6''"
    by (simp only: example_fields_once example_hash_once)
  show ?thesis unfolding a b by simp
qed

text \<open>
  C1, amended: for every provider configuration and transaction, the hash is the
  uppercase hexadecimal SHA-1 digest of terminal id, order reference, amount in minor
  units, return URL (as success URL), return URL again (as error URL), the transaction
  type \<open>sales\<close>, store key and security data, in that order; the security data is the
  uppercase SHA-1 digest of the provisioning password followed by the terminal id
  padded with zeros to 9 characters; the hash is stored on the transaction.
\<close>

theorem secure3d_hash_is_digest_of_fields:
  "fst (garanti_create_secure3d_hash c)
     = upper (sha1_hex
         (garanti_terminal_id (provider c)
          @ split_first CHR ''-'' (reference (tx c))
          @ str_int (amount c)
          @ garanti_get_return_url (provider c)
          @ garanti_get_return_url (provider c)
          @ ''sales''
          @ garanti_store_key (provider c)
          @ upper (sha1_hex (garanti_prov_password (provider c)
                             @ zfill 9 (garanti_terminal_id (provider c))))))
   \<and> garanti_secure3d_hash (tx (snd (garanti_create_secure3d_hash c)))
     = Some (fst (garanti_create_secure3d_hash c))
   \<and> provider (snd (garanti_create_secure3d_hash c)) = provider c
   \<and> amount (snd (garanti_create_secure3d_hash c)) = amount c"
  by (simp add: garanti_create_secure3d_hash_def secure3d_hash_strings_def
      garanti_compute_security_data_def conn_reference_def Let_def)

subsection \<open>The expiry year\<close>

text \<open>
  C9: the expiry year of the card is reduced by \<open>replace("20", "")\<close>, which removes
  every occurrence of \<open>20\<close>, not the century.  For the year 2120 the field is
  \<open>21\<close>, not the last two digits \<open>20\<close>; for 2020 it is empty.
\<close>

theorem cardexpiredateyear_2120:
  "vals_get ''cardexpiredateyear''
     (fst (garanti_create_payment_vals now (example_connector ''2120'')))
     = Some (PStr ''21'')
   \<and> vals_get ''cardexpiredateyear''
     (fst (garanti_create_payment_vals now (example_connector ''2020'')))
     = Some (PStr [])"
  by (simp add: vals_get_def garanti_create_payment_vals_def example_connector_def
      example_card_def Let_def)

text \<open>Where the reduction does give the last two digits: the years 20xx other than 2020.\<close>

lemma year_20xx_reduced:
  "[a, b] \<noteq> ''20'' \<Longrightarrow> str_replace ''20'' [] (''20'' @ [a, b]) = [a, b]"
  by auto

subsection \<open>Amounts in minor units\<close>

lemma pow2_pos: "0 < pow2 e"
  by (simp add: pow2_def)

lemma pow2_add: "pow2 (a + b) = pow2 a * pow2 b"
proof -
  have "pow2 e = 2 powi e" for e
    by (simp add: pow2_def power_int_def field_simps)
  then show ?thesis by (simp add: power_int_add)
qed

lemma pow2_nat: "0 \<le> e \<Longrightarrow> pow2 e = of_int (2 ^ nat e)"
  by (simp add: pow2_def)

lemma pow2_mono: "a \<le> b \<Longrightarrow> pow2 a \<le> pow2 b"
proof -
  assume "a \<le> b"
  then obtain n where b: "b = a + int n" by (metis zle_iff_zadd)
  have "1 \<le> pow2 (int n)" by (simp add: pow2_def)
  then show ?thesis unfolding b pow2_add using pow2_pos [of a]
    by (simp add: mult_le_cancel_left1)
qed

lemma bit_length_nonneg: "0 \<le> bit_length n"
  by (induction n rule: bit_length.induct) (simp add: bit_length.simps)

lemma bit_length_bounds:
  "0 < n \<Longrightarrow> 2 ^ nat (bit_length n - 1) \<le> n \<and> n < 2 ^ nat (bit_length n)"
proof (induction n rule: bit_length.induct)
  case (1 n)
  show ?case
  proof (cases "n = 1")
    case True
    then show ?thesis by (simp add: bit_length.simps [of 1] bit_length.simps [of 0])
  next
    case False
    with "1.prems" have h: "0 < n div 2" by simp
    from "1.IH" [OF _ h] "1.prems"
    have ih: "2 ^ nat (bit_length (n div 2) - 1) \<le> n div 2" "n div 2 < 2 ^ nat (bit_length (n div 2))"
      by simp_all
    have bl: "bit_length n = 1 + bit_length (n div 2)"
      using "1.prems" by (simp add: bit_length.simps [of n])
    have pos: "0 < bit_length (n div 2)"
      using h bit_length_nonneg [of "n div 2 div 2"] by (simp add: bit_length.simps [of "n div 2"])
    have n1: "nat (bit_length n - 1) = Suc (nat (bit_length (n div 2) - 1))"
      using pos bl by simp
    have n2: "nat (bit_length n) = Suc (nat (bit_length (n div 2)))"
      using pos bl by simp
    from ih show ?thesis unfolding n1 n2 by simp linarith
  qed
qed

lemma bit_length_pow2:
  assumes "0 < n"
  shows "pow2 (bit_length n - 1) \<le> of_int n" and "of_int n < pow2 (bit_length n)"
proof -
  from bit_length_bounds [OF assms]
  have a: "2 ^ nat (bit_length n - 1) \<le> n" and b: "n < 2 ^ nat (bit_length n)" by simp_all
  have pos: "0 < bit_length n"
    using assms bit_length_nonneg [of "n div 2"] by (simp add: bit_length.simps [of n])
  have "pow2 (bit_length n - 1) = of_int (2 ^ nat (bit_length n - 1))"
    using pos by (intro pow2_nat) simp
  also have "\<dots> \<le> of_int n" using a by (simp only: of_int_le_iff)
  finally show "pow2 (bit_length n - 1) \<le> of_int n" .
  have "(of_int n :: rat) < of_int (2 ^ nat (bit_length n))"
    using b by (simp only: of_int_less_iff)
  also have "\<dots> = pow2 (bit_length n)"
    using pos by (intro pow2_nat [symmetric]) simp
  finally show "of_int n < pow2 (bit_length n)" .
qed

lemma ilog2_bounds:
  assumes "0 < x"
  shows "pow2 (ilog2 x) \<le> x" and "x < pow2 (ilog2 x + 1)"
proof -
  obtain p q where pq: "quotient_of x = (p, q)" by (cases "quotient_of x")
  have q: "0 < q" using pq by (rule quotient_of_denom_pos)
  have x: "x = of_int p / of_int q" using pq by (rule quotient_of_div)
  have p: "0 < p" using assms q unfolding x by (simp add: zero_less_divide_iff)
  define e0 where "e0 = bit_length p - bit_length q"
  have xq: "x * of_int q = of_int p" using q unfolding x by simp
  have qr: "(0::rat) < of_int q" using q by simp
  have "pow2 (e0 - 1) * of_int q \<le> pow2 (e0 - 1) * pow2 (bit_length q)"
    using bit_length_pow2(2) [OF q] pow2_pos [of "e0 - 1"] by simp
  also have "\<dots> = pow2 (bit_length p - 1)"
    unfolding e0_def pow2_add [symmetric] by simp
  also have "\<dots> \<le> x * of_int q"
    unfolding xq using bit_length_pow2(1) [OF p] .
  finally have lo: "pow2 (e0 - 1) \<le> x"
    using qr by simp
  have "x * of_int q < pow2 (bit_length p)"
    unfolding xq using bit_length_pow2(2) [OF p] .
  also have "\<dots> = pow2 (e0 + 1) * pow2 (bit_length q - 1)"
    unfolding e0_def pow2_add [symmetric] by simp
  also have "\<dots> \<le> pow2 (e0 + 1) * of_int q"
    using bit_length_pow2(1) [OF q] pow2_pos [of "e0 + 1"] by simp
  finally have hi: "x < pow2 (e0 + 1)"
    using qr by simp
  have il: "ilog2 x = (if pow2 e0 \<le> x then e0 else e0 - 1)"
    by (simp add: ilog2_def pq e0_def Let_def)
  show "pow2 (ilog2 x) \<le> x"
    using lo by (simp add: il)
  show "x < pow2 (ilog2 x + 1)"
    using hi by (simp add: il)
qed

lemma round_half_even_of_int: "round_half_even (of_int n) = n"
  by (simp add: round_half_even_def)

lemma floor_frac_bounds:
  fixes q :: rat
  shows "0 \<le> q - of_int \<lfloor>q\<rfloor>" and "q - of_int \<lfloor>q\<rfloor> < 1"
  by linarith+

lemma round_half_even_near: "\<bar>of_int (round_half_even q) - q\<bar> \<le> 1 / 2"
proof -
  have b: "0 \<le> q - of_int \<lfloor>q\<rfloor>" "q - of_int \<lfloor>q\<rfloor> < 1"
    by (rule floor_frac_bounds)+
  show ?thesis
    using b unfolding round_half_even_def Let_def by (simp split: if_splits)
qed

lemma round_half_even_tie:
  assumes "\<bar>of_int (round_half_even q) - q\<bar> = 1 / 2"
  shows "even (round_half_even q)"
proof -
  have b: "0 \<le> q - of_int \<lfloor>q\<rfloor>" "q - of_int \<lfloor>q\<rfloor> < 1"
    by (rule floor_frac_bounds)+
  show ?thesis
  proof (cases "q - of_int \<lfloor>q\<rfloor> < 1 / 2")
    case True
    with assms b show ?thesis by (simp add: round_half_even_def Let_def)
  next
    case False
    note nlt = this
    show ?thesis
    proof (cases "1 / 2 < q - of_int \<lfloor>q\<rfloor>")
      case True
      with assms b nlt show ?thesis by (simp add: round_half_even_def Let_def)
    next
      case False
      with nlt show ?thesis by (simp add: round_half_even_def Let_def)
    qed
  qed
qed

lemma round_double_near:
  assumes "round_double x = Finite r"
  shows "\<bar>r - x\<bar> \<le> pow2 (max (ilog2 \<bar>x\<bar> - 52) (- 1074)) / 2"
proof (cases "x = 0")
  case True
  with assms have "r = 0" by (simp add: round_double_def)
  with True show ?thesis using pow2_pos [of "max (ilog2 \<bar>x\<bar> - 52) (- 1074)"] by simp
next
  case False
  define e where "e = max (ilog2 \<bar>x\<bar> - 52) (- 1074)"
  define y where "y = \<bar>x\<bar> / pow2 e"
  have pe: "0 < pow2 e" by (rule pow2_pos)
  have r: "r = (if 0 < x then of_int (round_half_even y) * pow2 e
                else - (of_int (round_half_even y) * pow2 e))"
    using assms False
    by (simp add: round_double_def Let_def e_def y_def split: if_splits)
  have ax: "\<bar>x\<bar> = y * pow2 e" using pe by (simp add: y_def)
  have "\<bar>of_int (round_half_even y) * pow2 e - \<bar>x\<bar>\<bar>
          = \<bar>of_int (round_half_even y) - y\<bar> * pow2 e"
    unfolding ax using pe by (simp add: abs_mult left_diff_distrib [symmetric])
  also have "\<dots> \<le> 1 / 2 * pow2 e"
    using round_half_even_near [of y] pe by (intro mult_right_mono) simp_all
  finally have d: "\<bar>of_int (round_half_even y) * pow2 e - \<bar>x\<bar>\<bar> \<le> pow2 e / 2" by simp
  show ?thesis
  proof (cases "0 < x")
    case True
    with d r show ?thesis by (simp add: e_def)
  next
    case False
    with \<open>x \<noteq> 0\<close> have "x < 0" by simp
    with d r show ?thesis unfolding e_def [symmetric] by (simp add: abs_if split: if_splits)
  qed
qed

lemma pow2_less_mono: "pow2 a < pow2 b \<Longrightarrow> a < b"
  using pow2_mono [of b a] by (cases "a < b") simp_all

lemma round_double_representable:
  assumes x: "x = of_int m * pow2 e" and m: "\<bar>m\<bar> < 2 ^ 53" and e: "- 1074 \<le> e"
    and fin: "\<bar>x\<bar> < pow2 1024"
  shows "round_double x = Finite x"
proof (cases "x = 0")
  case True
  then show ?thesis by (simp add: round_double_def)
next
  case False
  define a where "a = \<bar>x\<bar>"
  have a0: "0 < a" using False by (simp add: a_def)
  have am: "a = of_int \<bar>m\<bar> * pow2 e"
    using pow2_pos [of e] by (simp add: a_def x abs_mult)
  define e' where "e' = max (ilog2 a - 52) (- 1074)"
  have "pow2 (ilog2 a) \<le> a" using a0 by (rule ilog2_bounds)
  also have "a < of_int (2 ^ 53) * pow2 e"
    unfolding am using m pow2_pos [of e] by (intro mult_strict_right_mono) simp_all
  also have "of_int (2 ^ 53) * pow2 e = pow2 (53 + e)"
    unfolding pow2_add by (simp add: pow2_def)
  finally have "ilog2 a < 53 + e" by (rule pow2_less_mono)
  with e have le: "e' \<le> e" by (simp add: e'_def)
  have "pow2 e = pow2 (e - e') * pow2 e'"
    unfolding pow2_add [symmetric] by simp
  also have "pow2 (e - e') = of_int (2 ^ nat (e - e'))"
    using le by (intro pow2_nat) simp
  finally have pe: "pow2 e = of_int (2 ^ nat (e - e')) * pow2 e'" .
  have y: "a / pow2 e' = of_int (\<bar>m\<bar> * 2 ^ nat (e - e'))"
    unfolding am pe using pow2_pos [of e'] by simp
  have rr: "of_int (round_half_even (a / pow2 e')) * pow2 e' = a"
    unfolding y round_half_even_of_int unfolding am pe by simp
  have nov: "\<not> pow2 1024 \<le> a" using fin by (simp add: a_def)
  have "round_double x = Finite (if 0 < x then a else - a)"
    using False nov rr
    by (simp add: round_double_def Let_def a_def [symmetric] e'_def [symmetric])
  also have "(if 0 < x then a else - a) = x" by (simp add: a_def)
  finally show ?thesis .
qed

lemma get_amount_finite:
  assumes "float_mul (Finite a) (Finite 100) = Finite p"
  shows "get_amount (Finite a) = Inr (round_half_even p)"
  using assms by (simp add: get_amount_def)

lemma get_amount_eighth: "get_amount (Finite (1 / 8)) = Inr 12"
  by code_simp

lemma float_mul_eighth: "float_mul (Finite (1 / 8)) (Finite 100) = Finite (25 / 2)"
  by code_simp

lemma get_amount_19_995: "get_amount (round_double (19995 / 1000)) = Inr 2000"
  by code_simp

lemma get_amount_19_994: "get_amount (round_double (19994 / 1000)) = Inr 1999"
  by code_simp

lemma spec_to_minor_units_eighth: "spec_to_minor_units (1 / 8) = 13"
  by code_simp

lemma round_half_even_25_2: "round_half_even (25 / 2) = 12"
  by code_simp

text \<open>
  C3, as stated: for every float amount the conversion rounds half away from zero at
  two decimals and then to an integer.  The amount 0.125 is a double, and so is its
  product with 100, 12.5; the code gives 12 minor units, the stated rule 13.
\<close>

theorem get_amount_half_away_counterexample:
  "get_amount (Finite (1 / 8)) = Inr 12 \<and> spec_to_minor_units (1 / 8) = 13"
  by (simp only: get_amount_eighth spec_to_minor_units_eighth simp_thms)

text \<open>
  C3, amended: for every finite float amount whose product with 100 is finite, the
  conversion returns the integer nearest to that product, a tie going to the even
  integer; the product is the double nearest to amount times 100, within half a unit
  in the last place; nothing is truncated; and toMinorUnits(19.995) = 2000,
  toMinorUnits(19.994) = 1999.
\<close>

theorem get_amount_rounds_half_even:
  assumes "float_mul (Finite a) (Finite 100) = Finite p"
  shows "get_amount (Finite a) = Inr (round_half_even p)
     \<and> \<bar>p - a * 100\<bar> \<le> pow2 (max (ilog2 \<bar>a * 100\<bar> - 52) (- 1074)) / 2
     \<and> \<bar>of_int (round_half_even p) - p\<bar> \<le> 1 / 2
     \<and> (\<bar>of_int (round_half_even p) - p\<bar> = 1 / 2 \<longrightarrow> even (round_half_even p))
     \<and> get_amount (round_double (19995 / 1000)) = Inr 2000
     \<and> get_amount (round_double (19994 / 1000)) = Inr 1999"
proof (intro conjI impI)
  show "get_amount (Finite a) = Inr (round_half_even p)"
    using assms by (rule get_amount_finite)
  show "\<bar>p - a * 100\<bar> \<le> pow2 (max (ilog2 \<bar>a * 100\<bar> - 52) (- 1074)) / 2"
    using assms by (intro round_double_near) simp
  show "\<bar>of_int (round_half_even p) - p\<bar> \<le> 1 / 2"
    by (rule round_half_even_near)
  show "even (round_half_even p)" if "\<bar>of_int (round_half_even p) - p\<bar> = 1 / 2"
    using that by (rule round_half_even_tie)
  show "get_amount (round_double (19995 / 1000)) = Inr 2000"
    by (rule get_amount_19_995)
  show "get_amount (round_double (19994 / 1000)) = Inr 1999"
    by (rule get_amount_19_994)
qed

theorem get_amount_rounds_half_even_witness:
  "float_mul (Finite (1 / 8)) (Finite 100) = Finite (25 / 2)
   \<and> get_amount (Finite (1 / 8)) = Inr (round_half_even (25 / 2))
   \<and> round_half_even (25 / 2) = 12"
  using get_amount_rounds_half_even [OF float_mul_eighth]
  by (simp only: float_mul_eighth round_half_even_25_2 simp_thms)

subsection \<open>Redaction in the audit log\<close>

lemma re_search_None_Cons:
  assumes "re_search_digits16 (c # xs) = None"
  shows "\<not> digits16_at (c # xs)" and "re_search_digits16 xs = None"
proof -
  show n: "\<not> digits16_at (c # xs)"
  proof
    assume "digits16_at (c # xs)"
    then have "re_search_digits16 (c # xs) = Some (take 16 (c # xs))"
      by (simp only: re_search_digits16.simps if_True)
    with assms show False by simp
  qed
  from n have "re_search_digits16 (c # xs) = re_search_digits16 xs"
    by (simp only: re_search_digits16.simps if_False)
  with assms show "re_search_digits16 xs = None" by simp
qed

lemma take16_window:
  assumes "length num = 16"
  shows "take 16 (c # (pre @ num @ suf)) = take 16 (c # (pre @ take 15 num))"
  using assms by simp

lemma digits16_at_window:
  assumes "length num = 16"
  shows "digits16_at (c # (pre @ num @ suf)) = digits16_at (c # (pre @ take 15 num))"
proof -
  have "16 \<le> length (c # (pre @ num @ suf))" "16 \<le> length (c # (pre @ take 15 num))"
    using assms by simp_all
  then show ?thesis
    unfolding digits16_at_def by (simp only: take16_window [OF assms] simp_thms)
qed

lemma digits16_at_num:
  assumes "length num = 16" "list_all is_digit num"
  shows "digits16_at (num @ suf)" and "take 16 (num @ suf) = num"
  using assms by (simp_all add: digits16_at_def)

lemma digits16_at_is_digit: "digits16_at s \<Longrightarrow> list_all is_digit (take 16 s)"
  by (simp add: digits16_at_def)

lemma re_search_leftmost:
  assumes "length num = 16" "list_all is_digit num"
    "re_search_digits16 (pre @ take 15 num) = None"
  shows "re_search_digits16 (pre @ num @ suf) = Some num"
  using assms(3)
proof (induction pre)
  case Nil
  from assms(1) obtain c cs where num: "num = c # cs" by (cases num) auto
  have "re_search_digits16 (c # (cs @ suf)) = Some (take 16 (c # (cs @ suf)))"
    using digits16_at_num(1) [OF assms(1,2), of suf]
    by (simp only: num append_Cons re_search_digits16.simps if_True)
  also have "take 16 (c # (cs @ suf)) = num"
    using digits16_at_num(2) [OF assms(1,2), of suf] by (simp only: num append_Cons)
  finally show ?case by (simp only: num append_Nil append_Cons)
next
  case (Cons c pre)
  have nil: "re_search_digits16 (c # (pre @ take 15 num)) = None"
    using Cons.prems by simp
  have "\<not> digits16_at (c # (pre @ take 15 num))"
    by (rule re_search_None_Cons(1) [OF nil])
  then have a: "\<not> digits16_at (c # (pre @ num @ suf))"
    by (simp only: digits16_at_window [OF assms(1)] simp_thms)
  have b: "re_search_digits16 (pre @ take 15 num) = None"
    by (rule re_search_None_Cons(2) [OF nil])
  from a have "re_search_digits16 (c # (pre @ num @ suf)) = re_search_digits16 (pre @ num @ suf)"
    by (simp only: re_search_digits16.simps if_False)
  with Cons.IH [OF b] show ?case by simp
qed

lemma str_replace_leftmost:
  assumes "length num = 16" "list_all is_digit num"
    "re_search_digits16 (pre @ take 15 num) = None"
  shows "str_replace num new (pre @ num @ suf) = pre @ new @ str_replace num new suf"
  using assms(3)
proof (induction pre)
  case Nil
  from assms(1) obtain c cs where num: "num = c # cs" by (cases num) auto
  have "str_replace (c # cs) new ((c # cs) @ suf) = new @ str_replace (c # cs) new suf"
    by simp
  then show ?case by (simp add: num)
next
  case (Cons c pre)
  have nil: "re_search_digits16 (c # (pre @ take 15 num)) = None"
    using Cons.prems by simp
  have "\<not> digits16_at (c # (pre @ take 15 num))"
    by (rule re_search_None_Cons(1) [OF nil])
  then have a: "\<not> digits16_at (c # (pre @ num @ suf))"
    by (simp only: digits16_at_window [OF assms(1)] simp_thms)
  have b: "re_search_digits16 (pre @ take 15 num) = None"
    by (rule re_search_None_Cons(2) [OF nil])
  have ne: "take (length num) (c # (pre @ num @ suf)) \<noteq> num"
  proof
    assume eq: "take (length num) (c # (pre @ num @ suf)) = num"
    have "16 \<le> length (c # (pre @ num @ suf))" using assms(1) by simp
    moreover have "list_all is_digit (take 16 (c # (pre @ num @ suf)))"
      using eq assms(2) by (simp only: assms(1))
    ultimately have "digits16_at (c # (pre @ num @ suf))"
      unfolding digits16_at_def by (rule conjI)
    with a show False by simp
  qed
  from assms(1) have "num \<noteq> []" by auto
  with ne have "str_replace num new (c # (pre @ num @ suf))
     = c # str_replace num new (pre @ num @ suf)"
    by (simp only: str_replace.simps if_False)
  with Cons.IH [OF b] show ?case by simp
qed

lemma anonymize_leftmost:
  assumes "length num = 16" "list_all is_digit num"
    "re_search_digits16 (pre @ take 15 num) = None"
  shows "anonymize_sensitive_data (pre @ num @ suf)
     = pre @ ''****'' @ drop 12 num @ str_replace num (''****'' @ drop 12 num) suf"
  using assms
  by (simp add: anonymize_sensitive_data_def re_search_leftmost str_replace_leftmost)

lemma anonymize_none: "re_search_digits16 data = None \<Longrightarrow> anonymize_sensitive_data data = data"
  by (simp add: anonymize_sensitive_data_def)

lemma example_request_logged:
  "re_search_digits16 (serialize_request (request example_exchange))
     = Some ''4111111111111111''"
  by code_simp

lemma re_search_cardnumber_prefix:
  "re_search_digits16 (''cardnumber='' @ take 15 ''4111111111111111'') = None"
  by code_simp

lemma str_replace_cvv_suffix:
  "str_replace ''4111111111111111'' (''****'' @ drop 12 ''4111111111111111'') ''&cardcvv2=123''
     = ''&cardcvv2=123''"
  by code_simp

lemma re_search_redacted: "re_search_digits16 ''cardnumber=****1111&cardcvv2=123'' = None"
  by code_simp

lemma is_digit_4111: "list_all is_digit ''4111111111111111''"
  by code_simp

text \<open>
  What the redaction does: it replaces the leftmost contiguous 16-digit sequence, and
  every later non-overlapping occurrence of the same 16 digits, with \<open>****\<close> and
  its last 4 digits; other 16-digit sequences stay.  With debug logging on, the request
  text and the response text are logged after this redaction; with debug logging off
  nothing is logged at all.
\<close>

lemma process_http_request_redacts_leftmost:
  assumes "length num = 16" and "list_all is_digit num"
    and "re_search_digits16 (pre @ take 15 num) = None"
  shows "anonymize_sensitive_data (pre @ num @ suf)
       = pre @ ''****'' @ drop 12 num @ str_replace num (''****'' @ drop 12 num) suf
     \<and> process_http_request False response audit = (True, audit)
     \<and> process_http_request True response audit
       = (True, audit @
           [(anonymize_sensitive_data
               (''Request: '' @ req_method (request response) @ '' ''
                @ req_url (request response) @ [CHR 0x0A]
                @ str_opt (req_body (request response)) @ [CHR 0x0A, CHR 0x0A]),
             ''garanti_request''),
            (anonymize_sensitive_data
               (''Response: '' @ str_nat (status_code response) @ [CHR 0x0A]
                @ resp_text response @ [CHR 0x0A, CHR 0x0A]),
             ''garanti_response'')])"
proof (intro conjI)
  show "anonymize_sensitive_data (pre @ num @ suf)
       = pre @ ''****'' @ drop 12 num @ str_replace num (''****'' @ drop 12 num) suf"
    using assms by (rule anonymize_leftmost)
  show "process_http_request False response audit = (True, audit)"
    by (simp add: process_http_request_def)
  show "process_http_request True response audit
       = (True, audit @
           [(anonymize_sensitive_data
               (''Request: '' @ req_method (request response) @ '' ''
                @ req_url (request response) @ [CHR 0x0A]
                @ str_opt (req_body (request response)) @ [CHR 0x0A, CHR 0x0A]),
             ''garanti_request''),
            (anonymize_sensitive_data
               (''Response: '' @ str_nat (status_code response) @ [CHR 0x0A]
                @ resp_text response @ [CHR 0x0A, CHR 0x0A]),
             ''garanti_response'')])"
    by (simp add: process_http_request_def serialize_request_def serialize_response_def)
qed

lemma process_http_request_redacts_leftmost_example:
  "anonymize_sensitive_data ''cardnumber=4111111111111111&cardcvv2=123''
     = ''cardnumber=****1111&cardcvv2=123''
   \<and> re_search_digits16 ''cardnumber=****1111&cardcvv2=123'' = None"
proof -
  have len: "length ''4111111111111111'' = 16" by simp
  from process_http_request_redacts_leftmost
         [OF len is_digit_4111 re_search_cardnumber_prefix, of "''&cardcvv2=123''"]
  have "anonymize_sensitive_data (''cardnumber='' @ ''4111111111111111'' @ ''&cardcvv2=123'')
      = ''cardnumber='' @ ''****'' @ drop 12 ''4111111111111111'' @ ''&cardcvv2=123''"
    by (simp only: str_replace_cvv_suffix)
  then have "anonymize_sensitive_data ''cardnumber=4111111111111111&cardcvv2=123''
      = ''cardnumber=****1111&cardcvv2=123''"
    by simp
  then show ?thesis
    using re_search_redacted by (rule conjI)
qed

text \<open>
  C4: every contiguous 16-digit sequence is to be replaced before logging, so that the
  logged form never contains a full 16-digit sequence.  The code looks for the
  leftmost 16-digit sequence only.  With debug logging on, a request whose URL carries
  16 digits in the card holder's name, which comes before the card number, is logged
  with the card number 4111111111111111 in full.
\<close>

theorem process_http_request_logs_card_number:
  "re_search_digits16 (fst (hd (snd (process_http_request True example_exchange []))))
     = Some ''4111111111111111''"
  by (simp add: process_http_request_def example_request_logged)

subsection \<open>Requests\<close>

lemma garanti_requests_ok:
  assumes "http_client_request ext m u p = Inr resp"
    and "status_code resp < 400 \<or> 600 \<le> status_code resp"
  shows "fst (garanti_requests ext c audit m u p) = Inr resp"
  using assms by (auto simp add: garanti_requests_def Let_def)

lemma garanti_requests_raises:
  assumes "http_client_request ext m u p = Inl e"
  shows "garanti_requests ext c audit m u p = (Inl e, audit)"
  using assms by (simp add: garanti_requests_def)

lemma example_request_ok:
  "fst (garanti_requests (example_externals answer) c audit m u p)
     = Inr \<lparr>request = \<lparr>req_method = m, req_url = u,
                         req_body = (case p of Data d \<Rightarrow> Some d | Params ps \<Rightarrow> None)\<rparr>,
            status_code = 200, resp_text = answer\<rparr>"
  by (rule garanti_requests_ok) (simp_all add: example_externals_def example_client_def)

subsection \<open>The request document\<close>

text \<open>
  The building of the document raises only ValueError, and does so exactly when the
  mode of the provider or one of the fields it reads from the notification data is
  not XML-compatible.  The text of the hash is made of hexadecimal digits.
\<close>

lemma made_in_turn_isl: "isl (made_in_turn rs) = list_ex isl rs"
  by (induction rs) (auto split: sum.splits)


lemma text_element_isl: "isl (text_element t v) = (\<not> xml_compatible v)"
  by (simp add: text_element_def)

lemma element_isl: "isl (element t cs) = list_ex isl cs"
  by (simp add: element_def made_in_turn_isl [symmetric] split: sum.splits)

lemma text_element_error: "text_element t v = Inl e \<Longrightarrow> e = ValueError"
  by (simp add: text_element_def split: if_splits)


lemma hex_digit_char: "hex_digit n \<in> set ''0123456789abcdef''"
  unfolding hex_digit_def by (rule nth_mem) simp

lemma xml_char_upper_hex: "ch \<in> set ''0123456789abcdef'' \<Longrightarrow> xml_char (upper_char ch)"
  by (auto simp add: xml_char_def upper_char_def Let_def)

lemma hex_word_chars: "set (hex_word w) \<subseteq> set ''0123456789abcdef''"
  unfolding hex_word_def using hex_digit_char by auto

lemma hexdigest_chars: "set (hexdigest h) \<subseteq> set ''0123456789abcdef''"
  using hex_word_chars by (cases h) (auto simp add: hexdigest_def)

lemma hash_data_compatible: "xml_compatible (Some (garanti_compute_callback_hash_data c nd))"
proof -
  have "xml_char (upper_char ch)" if "ch \<in> set (hexdigest h)" for ch h
    using that hexdigest_chars [of h] by (intro xml_char_upper_hex) blast
  then show ?thesis
    by (simp add: xml_compatible_def garanti_compute_callback_hash_data_def sha1_hex_def
        upper_def list_all_iff)
qed

lemma constant_texts_compatible:
  "xml_compatible (Some [])" "xml_compatible (Some ''16'')" "xml_compatible (Some ''B'')"
  "xml_compatible (Some ''13'')" "xml_compatible (Some ''N'')"
  by (simp_all add: xml_compatible_def xml_char_def)

lemma garanti_card_node_made: "\<not> isl garanti_card_node"
  by (simp add: garanti_card_node_def element_isl text_element_isl constant_texts_compatible)

lemma garanti_address_list_node_made: "\<not> isl garanti_address_list_node"
  by (simp add: garanti_address_list_node_def element_isl text_element_isl
      constant_texts_compatible)

lemma garanti_create_callback_xml_isl:
  "isl (garanti_create_callback_xml ext c nd)
     = (\<not> (xml_compatible (Some (garanti_get_mode (provider c)))
             \<and> list_all (\<lambda>k. xml_compatible (nd_get nd k)) document_fields))"
proof -
  have "isl (garanti_create_callback_xml ext c nd)
          = isl (element ''GVPSRequest''
                   [text_element ''Mode'' (Some (garanti_get_mode (provider c))),
                    text_element ''Version'' (Some ''16''),
                    text_element ''ChannelCode'' (Some []),
                    garanti_terminal_node c nd,
                    garanti_customer_node nd,
                    garanti_card_node,
                    garanti_order_node nd,
                    garanti_transaction_node nd])"
    by (simp add: garanti_create_callback_xml_def split: sum.splits)
  then show ?thesis
    by (simp add: element_isl text_element_isl constant_texts_compatible
        garanti_terminal_node_def garanti_customer_node_def garanti_order_node_def
        garanti_transaction_node_def garanti_card_node_made garanti_address_list_node_made
        hash_data_compatible document_fields_def) blast
qed




lemma example_mode_compatible:
  "xml_compatible (Some (garanti_get_mode (provider (example_connector year))))"
  by (simp add: example_connector_def example_provider_def xml_compatible_def xml_char_def)




lemma example_query_compatible:
  "list_all
     (\<lambda>k. xml_compatible (nd_get (query_notification_data (example_connector ''2030'')) k))
     document_fields"
  by code_simp


subsection \<open>The callback confirmation\<close>






lemma example_fromstring_truncated:
  "example_fromstring ''<GVPSResponse><Transaction>'' = None"
  by code_simp









subsection \<open>The status query\<close>

lemma garanti_query_transaction_fst:
  assumes "garanti_create_query_transaction_vals ext c (query_notification_data c) = Inr xml_data"
  shows "fst (garanti_query_transaction ext c audit)
     = (case fst (garanti_requests ext c audit ''POST'' (garanti_get_prov_url (provider c))
                    (Data xml_data)) of
          Inl e \<Rightarrow> Inl payment_error_try_again
        | Inr resp \<Rightarrow> query_response_outcome (etree_fromstring ext (resp_text resp)))"
  using assms by (simp add: garanti_query_transaction_def split: prod.splits sum.splits)

lemma query_unparseable:
  assumes "garanti_create_query_transaction_vals ext c (query_notification_data c) = Inr xml_data"
    and "fst (garanti_requests ext c audit ''POST'' (garanti_get_prov_url (provider c))
                  (Data xml_data)) = Inr resp"
    and "etree_fromstring ext (resp_text resp) = None"
  shows "fst (garanti_query_transaction ext c audit) = Inl XMLSyntaxError"
  using assms by (simp add: garanti_query_transaction_fst query_response_outcome_def)

lemma example_query_document_made:
  "\<exists>xml_data. garanti_create_query_transaction_vals ext (example_connector ''2030'')
      (query_notification_data (example_connector ''2030'')) = Inr xml_data"
proof -
  have "\<not> isl (garanti_create_callback_xml ext (example_connector ''2030'')
                 (query_notification_data (example_connector ''2030'')))"
    by (simp only: garanti_create_callback_xml_isl example_mode_compatible
        example_query_compatible simp_thms)
  then show ?thesis
    unfolding garanti_create_query_transaction_vals_def
    by (cases "garanti_create_callback_xml ext (example_connector ''2030'')
                 (query_notification_data (example_connector ''2030''))") simp_all
qed

text \<open>
  C7: a response to the status query that is not parseable XML.  The parser's
  exception is outside the \<open>try\<close> of \<open>_garanti_query_transaction\<close> and reaches the
  caller as it is; it is not the ValidationError that a failed request gives.
\<close>

theorem garanti_query_transaction_malformed_xml:
  "fst (garanti_query_transaction (example_externals ''<GVPSResponse><Transaction>'')
          (example_connector ''2030'') [])
     = Inl XMLSyntaxError"
proof -
  obtain xml_data where made:
    "garanti_create_query_transaction_vals (example_externals ''<GVPSResponse><Transaction>'')
       (example_connector ''2030'') (query_notification_data (example_connector ''2030''))
     = Inr xml_data"
    using example_query_document_made by blast
  show ?thesis
    by (rule query_unparseable [OF made example_request_ok])
       (simp add: example_externals_def example_fromstring_truncated)
qed

subsection \<open>The initiate response\<close>

lemma parse_error_field:
  assumes "find_tags ''input'' (''name'', ''mderrormessage'') (html_parser ext (resp_text r)) = Some t"
    and "tag_getitem t ''value'' = Inr v"
  shows "garanti_parse_response_html ext r
     = (if v = ''Not Authenticated''
        then Inl (ValidationError ''Payment failed. POS: Card is not authenticated.'')
        else Inl (ValidationError (''Payment Error: '' @ v)))"
  using assms by (simp add: garanti_parse_response_html_def)

lemma parse_no_error_field:
  assumes "find_tags ''input'' (''name'', ''mderrormessage'') (html_parser ext (resp_text r)) = None"
  shows "garanti_parse_response_html ext r
     = (case find_tags ''form'' (''id'', ''webform0'') (html_parser ext (resp_text r)) of
          Some form \<Rightarrow> Inr (''form'', html_str ext [form])
        | None \<Rightarrow> Inr (''redirect'', html_str ext (html_parser ext (resp_text r))))"
  using assms by (simp add: garanti_parse_response_html_def Let_def)

lemma create_payment_vals_ok:
  assumes "cargs c = Some ca" and "card_valid_year ca = Some y"
  shows "\<exists>vals. fst (garanti_create_payment_vals n c) = Inr vals"
  using assms by (simp add: garanti_create_payment_vals_def Let_def)

lemma make_payment_request_fst:
  assumes "fst (garanti_create_payment_vals (now_ms ext) c) = Inr vals"
  shows "fst (garanti_make_payment_request ext c audit)
     = (case fst (garanti_requests ext
                    (snd (garanti_create_payment_vals (now_ms ext) c)) audit
                    ''POST''
                    (garanti_get_api_url
                       (provider (snd (garanti_create_payment_vals (now_ms ext) c))))
                    (Params vals)) of
          Inl e \<Rightarrow> Inl payment_error_try_again
        | Inr resp \<Rightarrow>
            (case garanti_parse_response_html ext resp of
               Inl e \<Rightarrow> Inl payment_error_try_again
             | Inr r \<Rightarrow> Inr r))"
proof -
  obtain c' where cv:
    "garanti_create_payment_vals (now_ms ext) c = (Inr vals, c')"
    using assms by (cases "garanti_create_payment_vals (now_ms ext) c") auto
  obtain r a where rq:
    "garanti_requests ext c' audit ''POST'' (garanti_get_api_url (provider c')) (Params vals)
       = (r, a)"
    by (cases "garanti_requests ext c' audit ''POST'' (garanti_get_api_url (provider c'))
                 (Params vals)") auto
  show ?thesis
    by (simp add: garanti_make_payment_request_def cv rq split: sum.splits)
qed

lemma make_payment_request_error_generic:
  assumes "fst (garanti_create_payment_vals (now_ms ext) c) = Inr vals"
    and "fst (garanti_make_payment_request ext c audit) = Inl e"
  shows "e = payment_error_try_again"
  using assms(2) unfolding make_payment_request_fst [OF assms(1)]
  by (auto split: sum.splits)

lemma example_parse_not_authenticated:
  "garanti_parse_response_html (example_externals answer)
     \<lparr>request = rq, status_code = 200, resp_text = example_error_page\<rparr>
     = Inl (ValidationError ''Payment failed. POS: Card is not authenticated.'')"
  by (simp add: garanti_parse_response_html_def example_externals_def example_html_parser_def)

text \<open>
  C5: an initiate response whose error field reads \<open>Not Authenticated\<close>.  The parser
  raises the error that names the failed authentication, but its caller
  \<open>_garanti_make_payment_request\<close> has the parser inside its \<open>try\<close> and replaces that
  error, as it does every other, by the general one: the text that the card is not
  authenticated, and likewise the provider's text for any other value, never leaves
  the connector.
\<close>

theorem garanti_make_payment_request_not_authenticated:
  "garanti_parse_response_html (example_externals example_error_page)
     \<lparr>request = rq, status_code = 200, resp_text = example_error_page\<rparr>
     = Inl (ValidationError ''Payment failed. POS: Card is not authenticated.'')
   \<and> fst (garanti_make_payment_request (example_externals example_error_page)
            (example_connector ''2030'') [])
     = Inl (ValidationError ''Payment Error: An error occurred. Please try again.'')"
proof (rule conjI)
  show "garanti_parse_response_html (example_externals example_error_page)
     \<lparr>request = rq, status_code = 200, resp_text = example_error_page\<rparr>
     = Inl (ValidationError ''Payment failed. POS: Card is not authenticated.'')"
    by (rule example_parse_not_authenticated)
  obtain vals where vals:
    "fst (garanti_create_payment_vals (now_ms (example_externals example_error_page))
            (example_connector ''2030''))
       = Inr vals"
    using create_payment_vals_ok [of "example_connector ''2030''" "example_card ''2030''" "''2030''"]
    by (auto simp add: example_connector_def example_card_def)
  show "fst (garanti_make_payment_request (example_externals example_error_page)
            (example_connector ''2030'') [])
     = Inl (ValidationError ''Payment Error: An error occurred. Please try again.'')"
    by (simp only: make_payment_request_fst [OF vals] example_request_ok
        example_parse_not_authenticated sum.case payment_error_try_again_def)
qed

subsection \<open>The initiate endpoint\<close>

lemma initiate_mismatch_no_effect:
  assumes "kw_order_id kw = Inr oid" and "browse_sale_order shop oid = Some order_sudo"
    and "kw_amount_total kw = Inr amt"
    and "float_compare shop amt (garanti_payment_amount order_sudo) (precision_get_account shop) \<noteq> 0"
  shows "\<exists>e. garanti_s2s_create_json_3ds shop kw st = (Inl e, st)"
  using assms
  by (simp add: garanti_s2s_create_json_3ds_def Let_def split: sum.splits)

lemma example_amounts_differ:
  "example_float_compare (Finite 10) (Finite (41 / 2)) 2 \<noteq> 0"
  by code_simp

lemma example_amounts_equal:
  "example_float_compare (Finite (41 / 2)) (Finite (41 / 2)) 2 = 0"
  by code_simp

lemma example_card_rejected:
  "example_validate_card_args 5 (kwargs_card_args (example_kwargs ''4111'' amt))
     = Some ''Card number is not valid.''"
  by (simp add: example_validate_card_args_def kwargs_card_args_def example_kwargs_def)

lemma example_card_accepted:
  "example_validate_card_args 5 (kwargs_card_args (example_kwargs ''4111111111111111'' amt)) = None"
  by (simp add: example_validate_card_args_def kwargs_card_args_def example_kwargs_def
      is_digit_def)

lemma initiate_card_error:
  assumes "kw_order_id kw = Inr oid" and "browse_sale_order shop oid = Some order_sudo"
    and "kw_acquirer_id kw = Inr aid"
    and "garanti_validate_card_args shop aid (kwargs_card_args kw) = Some m" and "m \<noteq> []"
  shows "garanti_s2s_create_json_3ds shop kw st = (Inl (ValidationError m), st)"
  using assms
  by (simp add: garanti_s2s_create_json_3ds_def Let_def truthy_def str_opt_def)

text \<open>
  C6, as stated: whenever the submitted amount differs from the order's amount, the
  error raised is the ValidationError \<open>Invalid amount\<close>.  The card arguments are
  validated before the amount: a request with a wrong amount and an invalid card
  number is answered with the card error.
\<close>

theorem initiate_invalid_amount_counterexample:
  "float_compare example_shop (Finite 10) (garanti_payment_amount example_order)
      (precision_get_account example_shop) \<noteq> 0
   \<and> garanti_s2s_create_json_3ds example_shop (example_kwargs ''4111'' (Finite 10)) empty_checkout
     = (Inl (ValidationError ''Card number is not valid.''), empty_checkout)"
proof (rule conjI)
  show "float_compare example_shop (Finite 10) (garanti_payment_amount example_order)
      (precision_get_account example_shop) \<noteq> 0"
    using example_amounts_differ by (simp add: example_shop_def example_order_def)
  show "garanti_s2s_create_json_3ds example_shop (example_kwargs ''4111'' (Finite 10)) empty_checkout
     = (Inl (ValidationError ''Card number is not valid.''), empty_checkout)"
  proof (rule initiate_card_error [where oid = 42 and aid = 5 and order_sudo = example_order])
    show "kw_order_id (example_kwargs ''4111'' (Finite 10)) = Inr 42"
      by (simp add: example_kwargs_def)
    show "browse_sale_order example_shop 42 = Some example_order"
      by (simp add: example_shop_def)
    show "kw_acquirer_id (example_kwargs ''4111'' (Finite 10)) = Inr 5"
      by (simp add: example_kwargs_def)
    show "garanti_validate_card_args example_shop 5
            (kwargs_card_args (example_kwargs ''4111'' (Finite 10)))
          = Some ''Card number is not valid.''"
      by (simp add: example_shop_def example_card_rejected)
    show "''Card number is not valid.'' \<noteq> []"
      by simp
  qed
qed

text \<open>
  C6, amended: at the initiate endpoint, for a request whose order exists and whose
  acquirer id and card arguments pass the checks that come first, if the submitted
  amount does not equal the order's expected payable amount compared at the account's
  decimal precision, the ValidationError \<open>Invalid amount\<close> is raised, and nothing has
  happened before: no transaction is created and no payment request is made.  (When an
  earlier check fails, its error is raised instead, also before any of these.)
\<close>

theorem initiate_invalid_amount:
  assumes "kw_order_id kw = Inr oid" and "browse_sale_order shop oid = Some order_sudo"
    and "kw_acquirer_id kw = Inr aid"
    and "\<not> truthy (garanti_validate_card_args shop aid (kwargs_card_args kw))"
    and "kw_amount_total kw = Inr amt"
    and "float_compare shop amt (garanti_payment_amount order_sudo) (precision_get_account shop) \<noteq> 0"
  shows "garanti_s2s_create_json_3ds shop kw st = (Inl (ValidationError ''Invalid amount''), st)"
  using assms
  by (simp add: garanti_s2s_create_json_3ds_def Let_def)

theorem initiate_invalid_amount_witness:
  "garanti_s2s_create_json_3ds example_shop (example_kwargs ''4111111111111111'' (Finite 10))
     empty_checkout
     = (Inl (ValidationError ''Invalid amount''), empty_checkout)"
proof (rule initiate_invalid_amount [where oid = 42 and aid = 5 and order_sudo = example_order
        and amt = "Finite 10"])
  show "kw_order_id (example_kwargs ''4111111111111111'' (Finite 10)) = Inr 42"
    by (simp add: example_kwargs_def)
  show "browse_sale_order example_shop 42 = Some example_order"
    by (simp add: example_shop_def)
  show "kw_acquirer_id (example_kwargs ''4111111111111111'' (Finite 10)) = Inr 5"
    by (simp add: example_kwargs_def)
  show "\<not> truthy (garanti_validate_card_args example_shop 5
                    (kwargs_card_args (example_kwargs ''4111111111111111'' (Finite 10))))"
    by (simp add: example_shop_def example_card_accepted truthy_def)
  show "kw_amount_total (example_kwargs ''4111111111111111'' (Finite 10)) = Inr (Finite 10)"
    by (simp add: example_kwargs_def)
  show "float_compare example_shop (Finite 10) (garanti_payment_amount example_order)
          (precision_get_account example_shop) \<noteq> 0"
    using example_amounts_differ by (simp add: example_shop_def example_order_def)
qed

text \<open>
  C8: when the payment request raises, the handler catches the exception, records the
  error on the transaction it has created, saves the transaction in the session and
  reaches \<open>return response_content\<close> with the variable unbound: the request ends in
  an UnboundLocalError.
\<close>

theorem initiate_swallows_payment_error:
  assumes "kw_order_id kw = Inr oid" and "browse_sale_order shop oid = Some order_sudo"
    and "kw_acquirer_id kw = Inr aid"
    and "\<not> truthy (garanti_validate_card_args shop aid (kwargs_card_args kw))"
    and "kw_amount_total kw = Inr amt"
    and "float_compare shop amt (garanti_payment_amount order_sudo) (precision_get_account shop) = 0"
    and "acq_make_payment_request shop aid (new_transaction order_sudo aid) amt
           (kwargs_card_args kw) (remote_addr shop) = Inl e"
  shows "garanti_s2s_create_json_3ds shop kw st
     = (Inl UnboundLocalError,
        st\<lparr>transactions :=
             transactions st
             @ [(new_transaction order_sudo aid)
                  \<lparr>ptx_state := ''error'',
                   ptx_state_message := ''Payment Error. Please contact us.''\<rparr>],
           provider_requests := Suc (provider_requests st),
           session_transactions := session_transactions st @ [length (transactions st)]\<rparr>)"
  using assms
  by (simp add: garanti_s2s_create_json_3ds_def Let_def set_transaction_error_def)

theorem initiate_swallows_payment_error_witness:
  "garanti_s2s_create_json_3ds example_shop
     (example_kwargs ''4111111111111111'' (Finite (41 / 2))) empty_checkout
     = (Inl UnboundLocalError,
        \<lparr>transactions =
           [(new_transaction example_order 5)
              \<lparr>ptx_state := ''error'',
               ptx_state_message := ''Payment Error. Please contact us.''\<rparr>],
         provider_requests = 1,
         session_transactions = [0]\<rparr>)"
proof -
  have "garanti_s2s_create_json_3ds example_shop
     (example_kwargs ''4111111111111111'' (Finite (41 / 2))) empty_checkout
     = (Inl UnboundLocalError,
        empty_checkout\<lparr>transactions :=
             transactions empty_checkout
             @ [(new_transaction example_order 5)
                  \<lparr>ptx_state := ''error'',
                   ptx_state_message := ''Payment Error. Please contact us.''\<rparr>],
           provider_requests := Suc (provider_requests empty_checkout),
           session_transactions :=
             session_transactions empty_checkout @ [length (transactions empty_checkout)]\<rparr>)"
  proof (rule initiate_swallows_payment_error [where oid = 42 and e = payment_error_try_again])
    show "kw_order_id (example_kwargs ''4111111111111111'' (Finite (41 / 2))) = Inr 42"
      by (simp add: example_kwargs_def)
    show "browse_sale_order example_shop 42 = Some example_order"
      by (simp add: example_shop_def)
    show "kw_acquirer_id (example_kwargs ''4111111111111111'' (Finite (41 / 2))) = Inr 5"
      by (simp add: example_kwargs_def)
    show "\<not> truthy (garanti_validate_card_args example_shop 5
             (kwargs_card_args (example_kwargs ''4111111111111111'' (Finite (41 / 2)))))"
      by (simp add: example_shop_def example_card_accepted truthy_def)
    show "kw_amount_total (example_kwargs ''4111111111111111'' (Finite (41 / 2)))
            = Inr (Finite (41 / 2))"
      by (simp add: example_kwargs_def)
    show "float_compare example_shop (Finite (41 / 2))
            (garanti_payment_amount example_order) (precision_get_account example_shop) = 0"
      using example_amounts_equal by (simp add: example_shop_def example_order_def)
    show "acq_make_payment_request example_shop 5 (new_transaction example_order 5)
            (Finite (41 / 2))
            (kwargs_card_args (example_kwargs ''4111111111111111'' (Finite (41 / 2))))
            (remote_addr example_shop) = Inl payment_error_try_again"
      by (simp add: example_shop_def)
  qed
  then show ?thesis by (simp add: empty_checkout_def)
qed

subsection \<open>The shipment mail\<close>

lemma button_mail_send_sent:
  "mail_sent sp \<Longrightarrow> button_mail_send t sp = (True, sp)"
  by (simp add: button_mail_send_def)

lemma button_mail_send_sets_sent:
  "truthy (py_or (sp_partner_email sp) (sp_sale_partner_email sp)) \<Longrightarrow> \<not> mail_sent sp \<Longrightarrow>
   snd (button_mail_send t sp)
     = sp\<lparr>job_queue := job_queue sp @ [MessagePostWithTemplate t], mail_sent := True\<rparr>"
  by (simp add: button_mail_send_def picking_write_def super_write_def)

lemma button_mail_send_no_email:
  "\<not> truthy (py_or (sp_partner_email sp) (sp_sale_partner_email sp)) \<Longrightarrow>
   button_mail_send t sp = (True, sp)"
  by (simp add: button_mail_send_def)

lemma button_mail_send_idem:
  "button_mail_send t (snd (button_mail_send t sp)) = (True, snd (button_mail_send t sp))"
  by (auto simp add: button_mail_send_def picking_write_def super_write_def py_or_def Let_def)

lemma button_mail_send_snd:
  "snd (button_mail_send t sp)
     = (if truthy (py_or (sp_partner_email sp) (sp_sale_partner_email sp)) \<and> \<not> mail_sent sp
        then sp\<lparr>job_queue := job_queue sp @ [MessagePostWithTemplate t], mail_sent := True\<rparr>
        else sp)"
  by (simp add: button_mail_send_def picking_write_def super_write_def Let_def)

lemma button_mail_send_times_Suc:
  "button_mail_send_times (Suc n) t sp = snd (button_mail_send t sp)"
proof (induction n arbitrary: sp)
  case 0
  show ?case by simp
next
  case (Suc n)
  have "button_mail_send_times (Suc (Suc n)) t sp
          = button_mail_send_times (Suc n) t (snd (button_mail_send t sp))"
    by simp
  also have "\<dots> = snd (button_mail_send t (snd (button_mail_send t sp)))"
    by (rule Suc.IH)
  also have "\<dots> = snd (button_mail_send t sp)"
    by (simp add: button_mail_send_idem)
  finally show ?case .
qed

text \<open>
  C10: \<open>button_mail_send\<close> returns True in all cases; it posts the mail job exactly
  when an email address exists and \<open>mail_sent\<close> is False, and then sets \<open>mail_sent\<close>;
  a second invocation posts nothing and changes no field, and so does every later
  one: after any number of invocations at most one mail job has been added.
\<close>

theorem button_mail_send_idempotent:
  "fst (button_mail_send t sp) = True
   \<and> snd (button_mail_send t sp)
       = (if truthy (py_or (sp_partner_email sp) (sp_sale_partner_email sp)) \<and> \<not> mail_sent sp
          then sp\<lparr>job_queue := job_queue sp @ [MessagePostWithTemplate t], mail_sent := True\<rparr>
          else sp)
   \<and> button_mail_send t (snd (button_mail_send t sp)) = (True, snd (button_mail_send t sp))
   \<and> button_mail_send_times (Suc n) t sp = snd (button_mail_send t sp)
   \<and> length (job_queue (button_mail_send_times n t sp)) \<le> Suc (length (job_queue sp))"
proof (intro conjI)
  show "fst (button_mail_send t sp) = True"
    by (simp add: button_mail_send_def Let_def)
  show "snd (button_mail_send t sp)
       = (if truthy (py_or (sp_partner_email sp) (sp_sale_partner_email sp)) \<and> \<not> mail_sent sp
          then sp\<lparr>job_queue := job_queue sp @ [MessagePostWithTemplate t], mail_sent := True\<rparr>
          else sp)"
    by (rule button_mail_send_snd)
  show "button_mail_send t (snd (button_mail_send t sp)) = (True, snd (button_mail_send t sp))"
    by (rule button_mail_send_idem)
  show "button_mail_send_times (Suc n) t sp = snd (button_mail_send t sp)"
    by (rule button_mail_send_times_Suc)
  show "length (job_queue (button_mail_send_times n t sp)) \<le> Suc (length (job_queue sp))"
  proof (cases n)
    case 0
    then show ?thesis by simp
  next
    case (Suc m)
    show ?thesis
      unfolding Suc button_mail_send_times_Suc button_mail_send_snd by simp
  qed
qed

theorem button_mail_send_idempotent_witness:
  "button_mail_send_times (Suc 2) 9 example_picking
     = example_picking\<lparr>job_queue := [MessagePostWithTemplate 9], mail_sent := True\<rparr>
   \<and> button_mail_send 9 (example_picking\<lparr>job_queue := [MessagePostWithTemplate 9], mail_sent := True\<rparr>)
     = (True, example_picking\<lparr>job_queue := [MessagePostWithTemplate 9], mail_sent := True\<rparr>)"
proof -
  have e: "truthy (py_or (sp_partner_email example_picking) (sp_sale_partner_email example_picking))
           \<and> \<not> mail_sent example_picking"
    by (simp add: example_picking_def py_or_def truthy_def)
  have q: "job_queue example_picking = []"
    by (simp add: example_picking_def)
  note t = button_mail_send_idempotent [of 9 example_picking 2]
  from t e
  have a: "snd (button_mail_send 9 example_picking)
          = example_picking\<lparr>job_queue := [MessagePostWithTemplate 9], mail_sent := True\<rparr>"
    by (simp add: q)
  from t
  have b: "button_mail_send 9 (snd (button_mail_send 9 example_picking))
          = (True, snd (button_mail_send 9 example_picking))"
    by (elim conjE)
  from t
  have c: "button_mail_send_times (Suc 2) 9 example_picking = snd (button_mail_send 9 example_picking)"
    by (elim conjE)
  from b c show ?thesis unfolding a by (rule conjI [rotated])
qed

end
